theory Spec2Isabelle
  imports Complex_Main
begin

section \<open>JavaScript values\<close>

text \<open>
  The block \<^verbatim>\<open>blocks/product-spotlight/product-spotlight.js\<close> works on parsed JSON
  (the GraphQL response, the configuration values, the placeholder labels). A JSON value
  is modelled as a datatype. A number is an IEEE double: its finite values are real numbers,
  and the three special values are kept apart. The sign of zero is not kept: no
  operation of the block tells \<open>-0\<close> from \<open>0\<close> (\<open>toFixed\<close>, \<open><\<close>, truthiness and
  \<open>ToString\<close> all agree on them).
\<close>

datatype jsnum = Finite real | NaN | PosInfinity | NegInfinity

datatype jsval =
    JUndefined
  | JNull
  | JBool bool
  | JNum jsnum
  | JStr string
  | JArr "jsval list"
  | JObj "(string \<times> jsval) list"

text \<open>Exceptions that the block can meet, as values.\<close>

datatype exn =
    TypeError
  | SyntaxError
  | InvalidCharacterError
  | NetworkError string
  | Error string

text \<open>A property key: \<open>v.name\<close> or \<open>v[i]\<close>.\<close>

datatype key = Name string | Index nat

fun nullish :: "jsval \<Rightarrow> bool" where
  "nullish JUndefined = True"
| "nullish JNull = True"
| "nullish _ = False"

text \<open>\<open>ToBoolean\<close>: what \<open>if (v)\<close>, \<open>!v\<close> and \<open>v || w\<close> test.\<close>

fun truthy :: "jsval \<Rightarrow> bool" where
  "truthy JUndefined = False"
| "truthy JNull = False"
| "truthy (JBool b) = b"
| "truthy (JNum (Finite x)) = (x \<noteq> 0)"
| "truthy (JNum NaN) = False"
| "truthy (JNum PosInfinity) = True"
| "truthy (JNum NegInfinity) = True"
| "truthy (JStr s) = (s \<noteq> [])"
| "truthy (JArr xs) = True"
| "truthy (JObj kvs) = True"

definition js_or :: "jsval \<Rightarrow> jsval \<Rightarrow> jsval" where
  "js_or a b = (if truthy a then a else b)"

text \<open>Decimal digits of a natural number, as \<open>ToString\<close> and \<open>toFixed\<close> write them.\<close>

definition digit_char :: "nat \<Rightarrow> char" where
  "digit_char d = char_of (48 + d)"

fun digits :: "nat \<Rightarrow> string" where
  "digits n = (if n < 10 then [digit_char n] else digits (n div 10) @ [digit_char (n mod 10)])"

declare digits.simps [simp del]

text \<open>
  Reading a property of a value that is neither \<open>undefined\<close> nor \<open>null\<close>. An object
  created by \<open>JSON.parse\<close> keeps the last of two equal keys. An array and a string answer
  to an index and to \<open>length\<close>; a boolean and a number have none of the properties the
  block asks for. None of the names the block reads is inherited from a prototype.
\<close>

fun prop_of :: "jsval \<Rightarrow> key \<Rightarrow> jsval" where
  "prop_of (JObj kvs) (Name n) = (case map_of (rev kvs) n of None \<Rightarrow> JUndefined | Some v \<Rightarrow> v)"
| "prop_of (JObj kvs) (Index i) = (case map_of (rev kvs) (digits i) of None \<Rightarrow> JUndefined | Some v \<Rightarrow> v)"
| "prop_of (JArr xs) (Index i) = (if i < length xs then xs ! i else JUndefined)"
| "prop_of (JArr xs) (Name n) = (if n = ''length'' then JNum (Finite (of_nat (length xs))) else JUndefined)"
| "prop_of (JStr s) (Index i) = (if i < length s then JStr [s ! i] else JUndefined)"
| "prop_of (JStr s) (Name n) = (if n = ''length'' then JNum (Finite (of_nat (length s))) else JUndefined)"
| "prop_of _ _ = JUndefined"

text \<open>\<open>v.k\<close>: a \<open>TypeError\<close> on \<open>undefined\<close> and \<open>null\<close>.\<close>

definition get_prop :: "jsval \<Rightarrow> key \<Rightarrow> exn + jsval" where
  "get_prop v k = (if nullish v then Inl TypeError else Inr (prop_of v k))"

text \<open>\<open>v?.k\<close>: \<open>undefined\<close> on \<open>undefined\<close> and \<open>null\<close>.\<close>

definition opt_prop :: "jsval \<Rightarrow> key \<Rightarrow> jsval" where
  "opt_prop v k = (if nullish v then JUndefined else prop_of v k)"

text \<open>Sequencing of steps that may throw.\<close>

definition and_then :: "exn + 'a \<Rightarrow> ('a \<Rightarrow> exn + 'b) \<Rightarrow> exn + 'b" where
  "and_then m f = (case m of Inl e \<Rightarrow> Inl e | Inr x \<Rightarrow> f x)"

section \<open>The runtime around the block\<close>

text \<open>
  The request that \<open>fetchProductData\<close> hands to \<open>fetch\<close>, and the response it awaits:
  \<open>response.json()\<close> either yields the parsed body or throws.
\<close>

record request =
  url :: jsval
  http_method :: string
  headers :: "(string \<times> jsval) list"
  body :: jsval

record response =
  json :: "exn + jsval"

text \<open>
  What the block imports and does not define: \<open>getConfigValue\<close> of the drop-in tools
  (for a key, the value it returns or the exception it throws), the transport \<open>fetch\<close>,
  \<open>rootLink\<close> of
  \<^verbatim>\<open>scripts/commerce.js\<close>, and the two conversions of ECMAScript between numbers and
  strings (\<open>Number::toString\<close> on a finite value, \<open>StringToNumber\<close>), whose results depend
  on the rounding of doubles. All are parameters.
\<close>

record env =
  getConfigValue :: "string \<Rightarrow> exn + jsval"
  fetch :: "request \<Rightarrow> exn + response"
  rootLink :: "string \<Rightarrow> string"
  number_to_string :: "real \<Rightarrow> string"
  string_to_number :: "string \<Rightarrow> jsnum"

text \<open>What a decoration does to the outside, in order.\<close>

datatype effect =
    Fetch request
  | ConsoleError string exn
  | Emit string jsval

subsection \<open>ToString, ToNumber, comparison, toFixed\<close>

fun join_comma :: "string list \<Rightarrow> string" where
  "join_comma [] = []"
| "join_comma [s] = s"
| "join_comma (s # t # ss) = s @ '','' @ join_comma (t # ss)"

definition num_to_string :: "env \<Rightarrow> jsnum \<Rightarrow> string" where
  "num_to_string env n =
     (case n of
        NaN \<Rightarrow> ''NaN''
      | PosInfinity \<Rightarrow> ''Infinity''
      | NegInfinity \<Rightarrow> ''-Infinity''
      | Finite x \<Rightarrow> number_to_string env x)"

text \<open>\<open>ToString\<close>, as a template literal applies it; an array joins its elements.\<close>

fun to_string :: "env \<Rightarrow> jsval \<Rightarrow> string" where
  "to_string env JUndefined = ''undefined''"
| "to_string env JNull = ''null''"
| "to_string env (JBool b) = (if b then ''true'' else ''false'')"
| "to_string env (JNum n) = num_to_string env n"
| "to_string env (JStr s) = s"
| "to_string env (JArr xs) =
     join_comma (map (\<lambda>x. if nullish x then [] else to_string env x) xs)"
| "to_string env (JObj kvs) = ''[object Object]''"

definition to_primitive :: "env \<Rightarrow> jsval \<Rightarrow> jsval" where
  "to_primitive env v =
     (case v of
        JArr xs \<Rightarrow> JStr (to_string env v)
      | JObj kvs \<Rightarrow> JStr (to_string env v)
      | _ \<Rightarrow> v)"

definition to_number :: "env \<Rightarrow> jsval \<Rightarrow> jsnum" where
  "to_number env v =
     (case to_primitive env v of
        JUndefined \<Rightarrow> NaN
      | JNull \<Rightarrow> Finite 0
      | JBool b \<Rightarrow> Finite (if b then 1 else 0)
      | JNum n \<Rightarrow> n
      | JStr s \<Rightarrow> string_to_number env s
      | _ \<Rightarrow> NaN)"

fun num_lt :: "jsnum \<Rightarrow> jsnum \<Rightarrow> bool" where
  "num_lt NaN _ = False"
| "num_lt _ NaN = False"
| "num_lt (Finite a) (Finite b) = (a < b)"
| "num_lt (Finite a) PosInfinity = True"
| "num_lt (Finite a) NegInfinity = False"
| "num_lt PosInfinity _ = False"
| "num_lt NegInfinity NegInfinity = False"
| "num_lt NegInfinity _ = True"

text \<open>\<open>a < b\<close>: two strings compare by code units, anything else as numbers.\<close>

definition js_lt :: "env \<Rightarrow> jsval \<Rightarrow> jsval \<Rightarrow> bool" where
  "js_lt env a b =
     (case (to_primitive env a, to_primitive env b) of
        (JStr s, JStr t) \<Rightarrow> lexordp (\<lambda>c d. (of_char c :: nat) < of_char d) s t
      | (pa, pb) \<Rightarrow> num_lt (to_number env pa) (to_number env pb))"

text \<open>
  \<open>Number.prototype.toFixed\<close> on a value \<open>0 \<le> x < 10\<^sup>2\<^sup>1\<close>: the integer \<open>n\<close> nearest to
  \<open>x * 10\<^sup>f\<close> (the larger of two), written with at least \<open>f + 1\<close> digits and a point before
  the last \<open>f\<close>.
\<close>

definition toFixed_digits :: "real \<Rightarrow> nat \<Rightarrow> string" where
  "toFixed_digits x f =
     (let n = nat \<lfloor>x * 10 ^ f + 1 / 2\<rfloor>;
          m = digits n;
          m = (if f \<noteq> 0 \<and> length m \<le> f then replicate (f + 1 - length m) CHR ''0'' @ m else m);
          k = length m
      in if f \<noteq> 0 then take (k - f) m @ ''.'' @ drop (k - f) m else m)"

definition num_toFixed :: "env \<Rightarrow> jsnum \<Rightarrow> nat \<Rightarrow> string" where
  "num_toFixed env n f =
     (case n of
        Finite x \<Rightarrow>
          (let s = (if x < 0 then ''-'' else []);
               x = (if x < 0 then - x else x)
           in if 10 ^ 21 \<le> x then s @ number_to_string env x else s @ toFixed_digits x f)
      | _ \<Rightarrow> num_to_string env n)"

text \<open>\<open>v.toFixed(f)\<close>: only a number has the method.\<close>

definition toFixed :: "env \<Rightarrow> jsval \<Rightarrow> nat \<Rightarrow> exn + string" where
  "toFixed env v f = (case v of JNum n \<Rightarrow> Inr (num_toFixed env n f) | _ \<Rightarrow> Inl TypeError)"

section \<open>The document\<close>

text \<open>
  A property handed to a drop-in component: a value, the icon \<open>Icon({ source })\<close>, or the
  click handler of the add-to-cart button, which closes over the product.
\<close>

datatype cprop = Val jsval | IconOf string | OnClickAddToCart jsval

text \<open>
  An element has a tag, its \<open>className\<close>, its attributes and its children. \<open>Html s\<close> is
  what the parser makes of the markup \<open>s\<close> assigned to \<open>innerHTML\<close>; \<open>Component c ps\<close> is
  what a drop-in renders for the component \<open>c\<close> with the properties \<open>ps\<close>.
\<close>

datatype node =
    Element string string "(string \<times> string) list" "node list"
  | Text string
  | Html string
  | Component string "(string \<times> cprop) list"

definition createElement :: "string \<Rightarrow> node" where
  "createElement t = Element t [] [] []"

fun set_className :: "string \<Rightarrow> node \<Rightarrow> node" where
  "set_className c (Element t _ ats ks) = Element t c ats ks"
| "set_className c n = n"

definition text_nodes :: "string \<Rightarrow> node list" where
  "text_nodes s = (if s = [] then [] else [Text s])"

definition html_nodes :: "string \<Rightarrow> node list" where
  "html_nodes s = (if s = [] then [] else [Html s])"

fun set_textContent :: "string \<Rightarrow> node \<Rightarrow> node" where
  "set_textContent s (Element t c ats _) = Element t c ats (text_nodes s)"
| "set_textContent s n = n"

fun set_innerHTML :: "string \<Rightarrow> node \<Rightarrow> node" where
  "set_innerHTML s (Element t c ats _) = Element t c ats (html_nodes s)"
| "set_innerHTML s n = n"

fun set_attribute :: "string \<Rightarrow> string \<Rightarrow> node \<Rightarrow> node" where
  "set_attribute a v (Element t c ats ks) = Element t c (filter (\<lambda>p. fst p \<noteq> a) ats @ [(a, v)]) ks"
| "set_attribute a v n = n"

fun appendChild :: "node \<Rightarrow> node \<Rightarrow> node" where
  "appendChild (Element t c ats ks) k = Element t c ats (ks @ [k])"
| "appendChild n k = n"

text \<open>\<open>render(Component, props)(container)\<close> of a drop-in.\<close>

definition render :: "string \<Rightarrow> (string \<times> cprop) list \<Rightarrow> node \<Rightarrow> node" where
  "render c ps container = appendChild container (Component c ps)"

text \<open>\<open>el.textContent = v\<close> for a value: \<open>undefined\<close> and \<open>null\<close> give no text.\<close>

definition text_of :: "env \<Rightarrow> jsval \<Rightarrow> string" where
  "text_of env v = (if nullish v then [] else to_string env v)"

text \<open>The block element: its class list and its content.\<close>

record block =
  classList :: "string list"
  children :: "node list"

text \<open>
  \<open>classList.add(token)\<close>: a \<open>SyntaxError\<close> on the empty token, an
  \<open>InvalidCharacterError\<close> on a token with ASCII whitespace (tab, line feed, form feed,
  carriage return, space); otherwise the token joins the list unless it is there.
\<close>

definition ascii_whitespace :: "char \<Rightarrow> bool" where
  "ascii_whitespace c = (of_char c \<in> {9, 10, 12, 13, 32 :: nat})"

definition classList_add :: "string \<Rightarrow> string list \<Rightarrow> exn + string list" where
  "classList_add token cl =
     (if token = [] then Inl SyntaxError
      else if list_ex ascii_whitespace token then Inl InvalidCharacterError
      else Inr (if token \<in> set cl then cl else cl @ [token]))"

section \<open>The product data fetcher\<close>

text \<open>The GraphQL query of \<open>fetchProductData\<close>, as the template literal spells it.\<close>

definition query :: string where
  "query =
     ''\<newline>    query getProduct($sku: String!) {'' @
     ''\<newline>      products(skus: [$sku]) {'' @
     ''\<newline>        sku'' @
     ''\<newline>        name'' @
     ''\<newline>        ... on SimpleProductView {'' @
     ''\<newline>          id'' @
     ''\<newline>          name'' @
     ''\<newline>          price {'' @
     ''\<newline>            final {'' @
     ''\<newline>              amount {'' @
     ''\<newline>                currency'' @
     ''\<newline>                value'' @
     ''\<newline>              }'' @
     ''\<newline>            }'' @
     ''\<newline>          }'' @
     ''\<newline>          images {'' @
     ''\<newline>            url'' @
     ''\<newline>          }'' @
     ''\<newline>        }'' @
     ''\<newline>        urlKey'' @
     ''\<newline>        images {'' @
     ''\<newline>          url'' @
     ''\<newline>        }'' @
     ''\<newline>        shortDescription'' @
     ''\<newline>      }'' @
     ''\<newline>    }'' @
     ''\<newline>  ''"

text \<open>
  \<open>{ ...v }\<close> in an object literal: the own enumerable properties of \<open>v\<close>. A later key
  overrides an earlier one, which the last-wins lookup of \<open>prop_of\<close> gives.
\<close>

fun spread :: "jsval \<Rightarrow> (string \<times> jsval) list" where
  "spread (JObj kvs) = kvs"
| "spread (JArr xs) = map (\<lambda>i. (digits i, xs ! i)) [0..<length xs]"
| "spread (JStr s) = map (\<lambda>i. (digits i, JStr [s ! i])) [0..<length s]"
| "spread _ = []"

text \<open>
  The arguments of the call to \<open>fetch\<close>, for the endpoint and the headers that
  \<open>getConfigValue\<close> has returned. The body is the value that \<open>JSON.stringify\<close> serialises.
\<close>

definition product_request :: "jsval \<Rightarrow> jsval \<Rightarrow> string \<Rightarrow> request" where
  "product_request endpoint hs sku =
     \<lparr>url = endpoint,
      http_method = ''POST'',
      headers = (''Content-Type'', JStr ''application/json'')
                  # spread (js_or (opt_prop hs (Name ''cs'')) (JObj [])),
      body = JObj [(''query'', JStr query), (''variables'', JObj [(''sku'', JStr sku)])]\<rparr>"

text \<open>
  \<open>fetchProductData(sku)\<close>: the effects of the call and its completion, \<open>Inl\<close> for an
  exception that leaves the function. The two calls of \<open>getConfigValue\<close> stand before
  the \<open>try\<close> block: what they throw leaves the function, with nothing logged and no
  request sent. The \<open>try\<close> block is \<open>attempt\<close>; the \<open>catch\<close> clause logs and returns
  \<open>null\<close>.
\<close>

definition fetchProductData :: "env \<Rightarrow> string \<Rightarrow> effect list \<times> (exn + jsval)" where
  "fetchProductData env sku =
     (case getConfigValue env ''commerce-core-endpoint'' of
        Inl e \<Rightarrow> ([], Inl e)
      | Inr endpoint \<Rightarrow>
          (case getConfigValue env ''headers'' of
             Inl e \<Rightarrow> ([], Inl e)
           | Inr hs \<Rightarrow>
               (let req = product_request endpoint hs sku;
                    attempt =
                      and_then (fetch env req) (\<lambda>response.
                      and_then (json response) (\<lambda>data.
                      and_then (get_prop data (Name ''data'')) (\<lambda>d.
                        Inr (js_or (opt_prop (opt_prop d (Name ''products'')) (Index 0)) JNull))))
                in case attempt of
                     Inr product \<Rightarrow> ([Fetch req], Inr product)
                   | Inl error \<Rightarrow>
                       ([Fetch req, ConsoleError ''Error fetching product data:'' error],
                        Inr JNull))))"

section \<open>The view builder\<close>

text \<open>
  \<open>createProductImage(product, container)\<close>: the container with the image region
  appended. A property that the source reads twice (\<open>product.images[0]\<close>) is read once:
  the product does not change between the reads.
\<close>

definition createProductImage :: "env \<Rightarrow> jsval \<Rightarrow> node \<Rightarrow> exn + node" where
  "createProductImage env product container =
     (let imageContainer = set_className ''spotlight__image-container'' (createElement ''div'') in
      and_then (get_prop product (Name ''images'')) (\<lambda>images.
        if truthy (opt_prop (opt_prop images (Index 0)) (Name ''url'')) then
          and_then (get_prop images (Index 0)) (\<lambda>image.
          and_then (get_prop image (Name ''url'')) (\<lambda>src.
          and_then (get_prop image (Name ''label'')) (\<lambda>label.
          and_then (get_prop product (Name ''name'')) (\<lambda>name.
            let img = createElement ''img'';
                img = set_attribute ''src'' (to_string env src) img;
                img = set_attribute ''alt'' (to_string env (js_or label name)) img;
                img = set_className ''spotlight__image'' img
            in Inr (appendChild container (appendChild imageContainer img))))))
        else
          let placeholder = createElement ''div'';
              placeholder = set_className ''spotlight__image-placeholder'' placeholder;
              placeholder = set_textContent ''No Image Available'' placeholder
          in Inr (appendChild container (appendChild imageContainer placeholder))))"

text \<open>
  \<open>createProductInfo\<close> in the order of the source. The price (the lines under
  \<open>// Product price\<close>): the info container with the price container appended.
\<close>

definition add_price :: "env \<Rightarrow> jsval \<Rightarrow> node \<Rightarrow> exn + node" where
  "add_price env product infoContainer =
     (let priceContainer = set_className ''spotlight__price-container'' (createElement ''div'');
          price = set_className ''spotlight__price'' (createElement ''span'')
      in
      and_then (get_prop product (Name ''price_range'')) (\<lambda>price_range.
        let priceData = opt_prop price_range (Name ''minimum_price'') in
        if truthy priceData then
          and_then (get_prop priceData (Name ''final_price'')) (\<lambda>final_price.
          and_then (get_prop final_price (Name ''currency'')) (\<lambda>currency.
          and_then (get_prop final_price (Name ''value'')) (\<lambda>finalPrice.
          and_then (get_prop priceData (Name ''regular_price'')) (\<lambda>regular_price.
          and_then (get_prop regular_price (Name ''value'')) (\<lambda>regularPrice.
          and_then (toFixed env finalPrice 2) (\<lambda>finalText.
            let price = set_textContent (to_string env currency @ '' '' @ finalText) price in
            if js_lt env finalPrice regularPrice then
              and_then (toFixed env regularPrice 2) (\<lambda>regularText.
                let originalPrice = createElement ''span'';
                    originalPrice = set_className ''spotlight__price-original'' originalPrice;
                    originalPrice =
                      set_textContent (to_string env currency @ '' '' @ regularText) originalPrice;
                    priceContainer = appendChild priceContainer originalPrice
                in Inr (appendChild infoContainer (appendChild priceContainer price)))
            else Inr (appendChild infoContainer (appendChild priceContainer price))))))))
        else Inr (appendChild infoContainer (appendChild priceContainer price))))"

text \<open>The description (the lines under \<open>// Product description\<close>).\<close>

definition add_description :: "env \<Rightarrow> jsval \<Rightarrow> node \<Rightarrow> exn + node" where
  "add_description env product infoContainer =
     and_then (get_prop product (Name ''short_description'')) (\<lambda>short_description.
       if truthy (opt_prop short_description (Name ''html'')) then
         and_then (get_prop short_description (Name ''html'')) (\<lambda>html.
           let description = createElement ''div'';
               description = set_className ''spotlight__description'' description;
               description = set_innerHTML (to_string env html) description
           in Inr (appendChild infoContainer description))
       else Inr infoContainer)"

text \<open>
  The three actions (from \<open>// Action buttons container\<close> on): the add-to-cart button, the
  view-details link and the wishlist toggle, each rendered by a drop-in into a container
  of its own. The click handler is attached, not run.
\<close>

definition add_actions :: "env \<Rightarrow> jsval \<Rightarrow> (string \<times> jsval) list \<Rightarrow> node \<Rightarrow> exn + node" where
  "add_actions env product labels infoContainer =
     (let actionsContainer = set_className ''spotlight__actions'' (createElement ''div'');
          addToCartContainer = set_className ''spotlight__add-to-cart'' (createElement ''div'');
          viewProductContainer = set_className ''spotlight__view-product'' (createElement ''div'');
          wishlistContainer = set_className ''spotlight__wishlist'' (createElement ''div'')
      in
      and_then (get_prop (JObj labels) (Name ''Global'')) (\<lambda>global.
        let addToCartContainer =
              render ''Button''
                [(''children'', Val (js_or (opt_prop global (Name ''AddProductToCart'')) (JStr ''Add to Cart''))),
                 (''icon'', IconOf ''Cart''),
                 (''onClick'', OnClickAddToCart product),
                 (''variant'', Val (JStr ''primary'')),
                 (''size'', Val (JStr ''large''))]
                addToCartContainer;
            actionsContainer = appendChild actionsContainer addToCartContainer
        in
        and_then (get_prop product (Name ''url_key'')) (\<lambda>url_key.
        and_then (get_prop product (Name ''sku'')) (\<lambda>sku.
        let viewProductContainer =
              render ''Button''
                [(''children'', Val (js_or (opt_prop global (Name ''ViewProduct'')) (JStr ''View Details''))),
                 (''href'', Val (JStr (rootLink env
                    (''/products/'' @ to_string env url_key @ ''/'' @ to_string env sku)))),
                 (''variant'', Val (JStr ''secondary'')),
                 (''size'', Val (JStr ''large''))]
                viewProductContainer;
            actionsContainer = appendChild actionsContainer viewProductContainer
        in
        and_then (get_prop product (Name ''name'')) (\<lambda>name.
        and_then (get_prop product (Name ''price_range'')) (\<lambda>price_range.
        and_then (get_prop product (Name ''media_gallery'')) (\<lambda>media_gallery.
        let wishlistContainer =
              render ''WishlistToggle''
                [(''product'', Val (JObj
                    [(''sku'', sku),
                     (''name'', name),
                     (''price'', opt_prop (opt_prop price_range (Name ''minimum_price'')) (Name ''final_price'')),
                     (''image'', opt_prop media_gallery (Index 0))]))]
                wishlistContainer;
            actionsContainer = appendChild actionsContainer wishlistContainer
        in Inr (appendChild infoContainer actionsContainer))))))))"

text \<open>\<open>createProductInfo(product, labels, container)\<close>: the container with the info region appended.\<close>

definition createProductInfo :: "env \<Rightarrow> jsval \<Rightarrow> (string \<times> jsval) list \<Rightarrow> node \<Rightarrow> exn + node" where
  "createProductInfo env product labels container =
     (let infoContainer = set_className ''spotlight__info'' (createElement ''div'') in
      and_then (get_prop product (Name ''name'')) (\<lambda>pname.
        let name = createElement ''h2'';
            name = set_className ''spotlight__name'' name;
            name = set_textContent (text_of env pname) name;
            infoContainer = appendChild infoContainer name
        in
        and_then (add_price env product infoContainer) (\<lambda>infoContainer.
        and_then (add_description env product infoContainer) (\<lambda>infoContainer.
        and_then (add_actions env product labels infoContainer) (\<lambda>infoContainer.
          Inr (appendChild container infoContainer))))))"

section \<open>The decoration orchestrator\<close>

text \<open>
  A decoration ends with the promise of \<open>decorate\<close> fulfilled (\<open>rejected = None\<close>) or
  rejected with an exception, the block as it then is, and the effects in order.
\<close>

record run =
  rejected :: "exn option"
  dom :: block
  trace :: "effect list"

text \<open>The four fixed markups that \<open>decorate\<close> assigns to \<open>block.innerHTML\<close>.\<close>

definition sku_required_html :: string where
  "sku_required_html = ''<p class=\"spotlight__error\">Product SKU is required</p>''"

definition loading_html :: string where
  "loading_html = ''<div class=\"spotlight__loading\">Loading product...</div>''"

definition not_found_html :: string where
  "not_found_html = ''<p class=\"spotlight__error\">Product not found</p>''"

definition error_loading_html :: string where
  "error_loading_html = ''<p class=\"spotlight__error\">Error loading product</p>''"

text \<open>
  The statements of the \<open>try\<close> block after a product has arrived: the container with the
  optional title and the content wrapper.
\<close>

definition build_container :: "env \<Rightarrow> (string \<times> jsval) list \<Rightarrow> string \<Rightarrow> jsval \<Rightarrow> exn + node" where
  "build_container env labels title product =
     (let container = set_className ''spotlight__container'' (createElement ''div'');
          container =
            (if title \<noteq> [] \<and> title \<noteq> ''Featured Product'' then
               let titleElement = createElement ''h2'';
                   titleElement = set_className ''spotlight__title'' titleElement;
                   titleElement = set_textContent title titleElement
               in appendChild container titleElement
             else container);
          contentWrapper = set_className ''spotlight__content'' (createElement ''div'')
      in
      and_then (createProductImage env product contentWrapper) (\<lambda>contentWrapper.
      and_then (createProductInfo env product labels contentWrapper) (\<lambda>contentWrapper.
        Inr (appendChild container contentWrapper))))"

text \<open>The payload of the analytics event.\<close>

definition loaded_payload :: "jsval \<Rightarrow> exn + jsval" where
  "loaded_payload product =
     and_then (get_prop product (Name ''sku'')) (\<lambda>sku.
     and_then (get_prop product (Name ''name'')) (\<lambda>name.
     and_then (get_prop product (Name ''price_range'')) (\<lambda>price_range.
       Inr (JObj
         [(''sku'', sku),
          (''name'', name),
          (''price'',
             opt_prop (opt_prop (opt_prop price_range (Name ''minimum_price''))
               (Name ''final_price'')) (Name ''value''))]))))"

text \<open>
  The body of the \<open>try\<close> block of \<open>decorate\<close>, from the block in its loading state: the
  block and the effects so far, and \<open>Inl\<close> where an exception reaches the \<open>catch\<close> clause.
\<close>

definition try_block ::
  "env \<Rightarrow> (string \<times> jsval) list \<Rightarrow> string \<Rightarrow> string \<Rightarrow> block \<Rightarrow> effect list \<times> (exn + block)" where
  "try_block env labels title sku block =
     (case fetchProductData env sku of
        (effects, Inl e) \<Rightarrow> (effects, Inl e)
      | (effects, Inr product) \<Rightarrow>
          if \<not> truthy product then
            (effects, Inr (block\<lparr>children := html_nodes not_found_html\<rparr>))
          else
            (case build_container env labels title product of
               Inl e \<Rightarrow> (effects, Inl e)
             | Inr container \<Rightarrow>
                 (case loaded_payload product of
                    Inl e \<Rightarrow> (effects, Inl e)
                  | Inr payload \<Rightarrow>
                      (effects @ [Emit ''product-spotlight/loaded'' payload],
                       Inr (block\<lparr>children := [container]\<rparr>)))))"

text \<open>
  The body of \<open>decorate(block)\<close>, from the point where \<open>fetchPlaceholders()\<close> has
  resolved with the object \<open>labels\<close> and \<open>readBlockConfig(block)\<close> has returned \<open>config\<close>, a
  mapping of keys to strings. A key that is absent reads as \<open>undefined\<close>, which the defaults of the
  destructuring replace for \<open>title\<close> and \<open>theme\<close>; a key that is present keeps its
  value, the empty string too. \<open>!sku\<close> holds for \<open>undefined\<close> and for the empty string, so
  an absent \<open>sku\<close> is read as the empty string. \<open>classList.add\<close> stands before the \<open>try\<close>
  block: its exception rejects the promise of \<open>decorate\<close>. An exception of the \<open>try\<close>
  block is logged, and the block shows the error message.
\<close>

definition decorate :: "env \<Rightarrow> (string \<times> jsval) list \<Rightarrow> (string \<rightharpoonup> string) \<Rightarrow> block \<Rightarrow> run" where
  "decorate env labels config block =
     (let sku = (case config ''sku'' of None \<Rightarrow> [] | Some s \<Rightarrow> s);
          title = (case config ''title'' of None \<Rightarrow> ''Featured Product'' | Some t \<Rightarrow> t);
          theme = (case config ''theme'' of None \<Rightarrow> ''default'' | Some t \<Rightarrow> t)
      in
      if sku = [] then
        \<lparr>rejected = None, dom = block\<lparr>children := html_nodes sku_required_html\<rparr>, trace = []\<rparr>
      else
        (case classList_add (''spotlight--'' @ theme) (classList block) of
           Inl e \<Rightarrow> \<lparr>rejected = Some e, dom = block, trace = []\<rparr>
         | Inr cl \<Rightarrow>
             let block = block\<lparr>classList := cl\<rparr>;
                 block = block\<lparr>children := html_nodes loading_html\<rparr>
             in
             (case try_block env labels title sku block of
                (effects, Inr block) \<Rightarrow> \<lparr>rejected = None, dom = block, trace = effects\<rparr>
              | (effects, Inl error) \<Rightarrow>
                  \<lparr>rejected = None,
                   dom = block\<lparr>children := html_nodes error_loading_html\<rparr>,
                   trace = effects @ [ConsoleError ''Error in product spotlight block:'' error]\<rparr>)))"

text \<open>
  The entry point \<open>decorate(block)\<close> itself takes the configuration from the block:
  \<open>config = readBlockConfig(block)\<close>. The reader belongs to \<^verbatim>\<open>scripts/aem.js\<close> and is a
  parameter, a function of the block. A second decoration of the same element reads
  the configuration from what the first one has left there.
\<close>

definition decorate_block ::
  "(block \<Rightarrow> (string \<rightharpoonup> string)) \<Rightarrow> env \<Rightarrow> (string \<times> jsval) list \<Rightarrow> block \<Rightarrow> run" where
  "decorate_block readBlockConfig env labels block =
     decorate env labels (readBlockConfig block) block"

section \<open>Observations\<close>

text \<open>The events that a trace emits, and the requests it sends, in order.\<close>

fun emitted :: "effect list \<Rightarrow> (string \<times> jsval) list" where
  "emitted [] = []"
| "emitted (Emit n p # es) = (n, p) # emitted es"
| "emitted (_ # es) = emitted es"

fun fetches :: "effect list \<Rightarrow> request list" where
  "fetches [] = []"
| "fetches (Fetch r # es) = r # fetches es"
| "fetches (_ # es) = fetches es"

text \<open>
  The four terminal states of a decoration, read off its end: the promise is fulfilled
  and the block holds one of the three fixed messages, or the container that a
  successful render appends.
\<close>

datatype render_state = Rendered | NotFound | ConfigError | FetchError

definition state_of :: "run \<Rightarrow> render_state option" where
  "state_of r =
     (case rejected r of
        Some e \<Rightarrow> None
      | None \<Rightarrow>
          (case children (dom r) of
             [Html s] \<Rightarrow>
               (if s = sku_required_html then Some ConfigError
                else if s = not_found_html then Some NotFound
                else if s = error_loading_html then Some FetchError
                else None)
           | [Element t c ats ks] \<Rightarrow>
               (if t = ''div'' \<and> c = ''spotlight__container'' then Some Rendered else None)
           | _ \<Rightarrow> None))"

text \<open>
  The elements of a tree with a given class name, or a given tag, in document order.
  The markup behind \<open>Html\<close> and the inside of a drop-in component are not searched.
\<close>

fun by_class :: "string \<Rightarrow> node \<Rightarrow> node list" where
  "by_class c (Element t c' ats ks) =
     (if c' = c then [Element t c' ats ks] else []) @ concat (map (by_class c) ks)"
| "by_class c _ = []"

fun by_tag :: "string \<Rightarrow> node \<Rightarrow> node list" where
  "by_tag t (Element t' c ats ks) =
     (if t' = t then [Element t' c ats ks] else []) @ concat (map (by_tag t) ks)"
| "by_tag t _ = []"

definition elements_by_class :: "string \<Rightarrow> node list \<Rightarrow> node list" where
  "elements_by_class c ns = concat (map (by_class c) ns)"

definition elements_by_tag :: "string \<Rightarrow> node list \<Rightarrow> node list" where
  "elements_by_tag t ns = concat (map (by_tag t) ns)"

text \<open>
  The title and the theme class that \<open>decorate\<close> takes from a configuration, after the
  defaults of the destructuring.
\<close>

definition title_of :: "(string \<rightharpoonup> string) \<Rightarrow> string" where
  "title_of config = (case config ''title'' of None \<Rightarrow> ''Featured Product'' | Some t \<Rightarrow> t)"

definition theme_class :: "(string \<rightharpoonup> string) \<Rightarrow> string" where
  "theme_class config =
     ''spotlight--'' @ (case config ''theme'' of None \<Rightarrow> ''default'' | Some t \<Rightarrow> t)"

text \<open>
  The pricing data of a product: \<open>price_range.minimum_price\<close>, its \<open>final_price\<close> and
  \<open>regular_price\<close>, each \<open>undefined\<close> where the path to it is absent.
\<close>

definition minimum_price_of :: "jsval \<Rightarrow> jsval" where
  "minimum_price_of product =
     opt_prop (prop_of product (Name ''price_range'')) (Name ''minimum_price'')"

definition final_price_of :: "jsval \<Rightarrow> jsval" where
  "final_price_of product = prop_of (minimum_price_of product) (Name ''final_price'')"

definition regular_price_of :: "jsval \<Rightarrow> jsval" where
  "regular_price_of product = prop_of (minimum_price_of product) (Name ''regular_price'')"

text \<open>
  The price that the analytics event is to carry, as the specification words it: the
  value of the final price, or \<open>undefined\<close> when the price range, the minimum price or
  the final price is absent. It is compared with the optional chain of the source below.
\<close>

definition final_price_value :: "jsval \<Rightarrow> jsval" where
  "final_price_value product =
     (let price_range = prop_of product (Name ''price_range'') in
      if nullish price_range then JUndefined
      else let minimum_price = prop_of price_range (Name ''minimum_price'') in
        if nullish minimum_price then JUndefined
        else let final_price = prop_of minimum_price (Name ''final_price'') in
          if nullish final_price then JUndefined
          else prop_of final_price (Name ''value''))"

text \<open>
  The format that the specification names, "value to 2 decimal places": the hundredth
  nearest to the value (a tie goes away from zero), as a sign, the digits of the integer
  part, a point and two digits. It is defined apart from \<open>toFixed\<close>, which is compared
  with it below.
\<close>

definition two_decimals :: "real \<Rightarrow> string" where
  "two_decimals x =
     (let n = nat \<lfloor>\<bar>x\<bar> * 100 + 1 / 2\<rfloor>
      in (if x < 0 then ''-'' else []) @ digits (n div 100) @ ''.''
           @ [digit_char (n mod 100 div 10), digit_char (n mod 10)])"

section \<open>Example inputs\<close>

text \<open>
  The product of the end-to-end example; the same product on sale, 80 instead of 100;
  and the same product with a minimum price whose final price is \<open>null\<close>.
\<close>

definition priced_mug :: "jsval \<Rightarrow> jsval \<Rightarrow> jsval" where
  "priced_mug final_price regular_price =
     JObj [(''sku'', JStr ''24-MB01''),
           (''name'', JStr ''Test Mug''),
           (''price_range'', JObj [(''minimum_price'', JObj
              [(''final_price'', final_price), (''regular_price'', regular_price)])]),
           (''images'', JArr [])]"

definition test_mug :: jsval where
  "test_mug =
     priced_mug (JObj [(''currency'', JStr ''USD''), (''value'', JNum (Finite 15))])
       (JObj [(''value'', JNum (Finite 15))])"

definition sale_mug :: jsval where
  "sale_mug =
     priced_mug (JObj [(''currency'', JStr ''USD''), (''value'', JNum (Finite 80))])
       (JObj [(''value'', JNum (Finite 100))])"

definition unpriced_mug :: jsval where
  "unpriced_mug = priced_mug JNull (JObj [(''value'', JNum (Finite 15))])"

text \<open>The body of a response with the given products.\<close>

definition reply_with :: "jsval list \<Rightarrow> jsval" where
  "reply_with products = JObj [(''data'', JObj [(''products'', JArr products)])]"

text \<open>
  Three runtimes: one whose transport fails, one whose backend answers every request
  with a given body, and one whose configuration is not initialised, so that
  \<open>getConfigValue\<close> throws. No example consults the two number conversions; they stand
  for \<open>Number::toString\<close> on the integers and for \<open>StringToNumber\<close> on the empty string.
\<close>

definition offline_env :: env where
  "offline_env =
     \<lparr>getConfigValue =
        (\<lambda>k. Inr (if k = ''commerce-core-endpoint'' then JStr ''/graphql'' else JUndefined)),
      fetch = (\<lambda>req. Inl (NetworkError ''Failed to fetch'')),
      rootLink = (\<lambda>link. link),
      number_to_string = (\<lambda>x. (if x < 0 then ''-'' else []) @ digits (nat \<lfloor>\<bar>x\<bar>\<rfloor>)),
      string_to_number = (\<lambda>s. if s = [] then Finite 0 else NaN)\<rparr>"

definition backend_env :: "jsval \<Rightarrow> env" where
  "backend_env reply = offline_env\<lparr>fetch := (\<lambda>req. Inr \<lparr>json = Inr reply\<rparr>)\<rparr>"

definition unconfigured_env :: env where
  "unconfigured_env =
     offline_env\<lparr>getConfigValue := (\<lambda>k. Inl (Error ''Configuration not initialized''))\<rparr>"

text \<open>The request that the two configured runtimes send for the test mug.\<close>

definition mug_request :: request where
  "mug_request = product_request (JStr ''/graphql'') JUndefined ''24-MB01''"

definition plain_block :: block where
  "plain_block = \<lparr>classList = [''product-spotlight'', ''block''], children = []\<rparr>"

text \<open>
  Modelled from the spec: the Config Reader (\<open>readBlockConfig\<close> of \<^verbatim>\<open>scripts/aem.js\<close>,
  which is not among the sources) "parses a declarative content table into a flat
  key\<rightarrow>string mapping", the table being "ordered key/value rows". Here a row is an
  element with two cells, each holding its text; a later row overrides an earlier
  one; anything else in the block is no row.
\<close>

fun cell_text :: "node \<Rightarrow> string option" where
  "cell_text (Element t c ats []) = Some []"
| "cell_text (Element t c ats [Text s]) = Some s"
| "cell_text _ = None"

fun row_entry :: "node \<Rightarrow> (string \<times> string) option" where
  "row_entry (Element t c ats [k, v]) =
     (case (cell_text k, cell_text v) of
        (Some key, Some txt) \<Rightarrow> Some (key, txt)
      | _ \<Rightarrow> None)"
| "row_entry _ = None"

definition table_reader :: "block \<Rightarrow> (string \<rightharpoonup> string)" where
  "table_reader block = map_of (rev (List.map_filter row_entry (children block)))"

text \<open>The table of the end-to-end example, and a block that holds it.\<close>

definition table_row :: "string \<Rightarrow> string \<Rightarrow> node" where
  "table_row k v =
     Element ''div'' [] []
       [Element ''div'' [] [] (text_nodes k), Element ''div'' [] [] (text_nodes v)]"

definition mug_table :: "node list" where
  "mug_table = [table_row ''sku'' ''24-MB01'', table_row ''theme'' ''dark'']"

definition authored_block :: block where
  "authored_block = \<lparr>classList = [''product-spotlight'', ''block''], children = mug_table\<rparr>"

text \<open>
  The content wrapper that the view builder makes of \<open>test_mug\<close>, for the properties
  that the three drop-in components receive.
\<close>

definition test_mug_content ::
  "(string \<times> cprop) list \<Rightarrow> (string \<times> cprop) list \<Rightarrow> (string \<times> cprop) list \<Rightarrow> node" where
  "test_mug_content p1 p2 p3 =
     Element ''div'' ''spotlight__content'' []
       [Element ''div'' ''spotlight__image-container'' []
          [Element ''div'' ''spotlight__image-placeholder'' [] [Text ''No Image Available'']],
        Element ''div'' ''spotlight__info'' []
          [Element ''h2'' ''spotlight__name'' [] [Text ''Test Mug''],
           Element ''div'' ''spotlight__price-container'' []
             [Element ''span'' ''spotlight__price'' [] [Text ''USD 15.00'']],
           Element ''div'' ''spotlight__actions'' []
             [Element ''div'' ''spotlight__add-to-cart'' [] [Component ''Button'' p1],
              Element ''div'' ''spotlight__view-product'' [] [Component ''Button'' p2],
              Element ''div'' ''spotlight__wishlist'' [] [Component ''WishlistToggle'' p3]]]]"

section \<open>Properties\<close>

subsection \<open>Values and exceptions\<close>

lemma and_then_simps [simp]:
  "and_then (Inl e) f = Inl e"
  "and_then (Inr x) f = f x"
  by (simp_all add: and_then_def)

lemma and_then_Inr_iff: "and_then m f = Inr y \<longleftrightarrow> (\<exists>x. m = Inr x \<and> f x = Inr y)"
  by (cases m) simp_all

lemma get_prop_Inr_iff: "get_prop v k = Inr x \<longleftrightarrow> \<not> nullish v \<and> x = prop_of v k"
  by (auto simp add: get_prop_def)

lemma truthy_not_nullish: "truthy v \<Longrightarrow> \<not> nullish v"
  by (cases v) simp_all

lemma prop_of_nullish [simp]: "nullish v \<Longrightarrow> prop_of v k = JUndefined"
  by (cases v) simp_all

lemma prop_not_nullish: "prop_of v k = JNum n \<Longrightarrow> \<not> nullish v"
  by (cases v) simp_all

lemma minimum_price_not_nullish: "truthy (minimum_price_of product) \<Longrightarrow> \<not> nullish product"
  by (cases product) (simp_all add: minimum_price_of_def opt_prop_def)

lemma js_lt_finite [simp]: "js_lt env (JNum (Finite a)) (JNum (Finite b)) = (a < b)"
  by (simp add: js_lt_def to_primitive_def to_number_def)

lemma html_nodes_fixed [simp]:
  "html_nodes sku_required_html = [Html sku_required_html]"
  "html_nodes not_found_html = [Html not_found_html]"
  "html_nodes error_loading_html = [Html error_loading_html]"
  "html_nodes loading_html = [Html loading_html]"
  by (simp_all add: html_nodes_def sku_required_html_def not_found_html_def
      error_loading_html_def loading_html_def)

lemma fixed_html_distinct [simp]:
  "sku_required_html \<noteq> not_found_html"
  "sku_required_html \<noteq> error_loading_html"
  "not_found_html \<noteq> error_loading_html"
  "not_found_html \<noteq> sku_required_html"
  "error_loading_html \<noteq> sku_required_html"
  "error_loading_html \<noteq> not_found_html"
  by (simp_all add: sku_required_html_def not_found_html_def error_loading_html_def)

lemma emitted_append [simp]: "emitted (xs @ ys) = emitted xs @ emitted ys"
  by (induction xs rule: emitted.induct) simp_all

lemma fetches_append [simp]: "fetches (xs @ ys) = fetches xs @ fetches ys"
  by (induction xs rule: fetches.induct) simp_all

subsection \<open>toFixed(2) writes two decimal places\<close>

lemma digit_char_values:
  "digit_char 0 = CHR ''0''" "digit_char 1 = CHR ''1''" "digit_char 2 = CHR ''2''"
  "digit_char 3 = CHR ''3''" "digit_char 4 = CHR ''4''" "digit_char 5 = CHR ''5''"
  "digit_char 6 = CHR ''6''" "digit_char 7 = CHR ''7''" "digit_char 8 = CHR ''8''"
  "digit_char 9 = CHR ''9''" "digit_char (Suc 0) = CHR ''1''"
  by (simp_all add: digit_char_def char_of_def bit_simps)

lemma length_digits_pos: "0 < length (digits n)"
  by (subst digits.simps) simp

lemma digits_small: "n < 10 \<Longrightarrow> digits n = [digit_char n]"
  by (subst digits.simps) simp

lemma digits_step: "10 \<le> n \<Longrightarrow> digits n = digits (n div 10) @ [digit_char (n mod 10)]"
  by (subst digits.simps) simp

lemma digits_two:
  assumes "10 \<le> n" "n < 100"
  shows "digits n = [digit_char (n div 10), digit_char (n mod 10)]"
proof -
  have "n div 10 < 10" using assms by simp
  then have "digits (n div 10) = [digit_char (n div 10)]" by (rule digits_small)
  with digits_step [OF assms(1)] show ?thesis by simp
qed

lemma digits_hundred:
  assumes "100 \<le> n"
  shows "digits n = digits (n div 100) @ [digit_char (n mod 100 div 10), digit_char (n mod 10)]"
proof -
  have a: "10 \<le> n" "10 \<le> n div 10" using assms by auto
  have b: "n div 10 div 10 = n div 100" by (simp add: div_mult2_eq)
  have "n mod 100 = 10 * (n div 10 mod 10) + n mod 10"
    using mod_mult2_eq [of n 10 10] by simp
  then have c: "n div 10 mod 10 = n mod 100 div 10" by simp
  have "digits n = digits (n div 10) @ [digit_char (n mod 10)]"
    using a(1) by (rule digits_step)
  also have "digits (n div 10) = digits (n div 10 div 10) @ [digit_char (n div 10 mod 10)]"
    using a(2) by (rule digits_step)
  finally show ?thesis by (simp only: b c append_assoc append_Cons append_Nil)
qed

text \<open>
  The string manipulation of \<open>toFixed\<close> (pad with zeros, split before the last two
  digits) yields the integer part, a point, and the two digits of the hundredths.
\<close>

lemma toFixed_digits_2:
  "toFixed_digits x 2 =
     (let n = nat \<lfloor>x * 100 + 1 / 2\<rfloor>
      in digits (n div 100) @ ''.'' @ [digit_char (n mod 100 div 10), digit_char (n mod 10)])"
proof -
  let ?n = "nat \<lfloor>x * 100 + 1 / 2\<rfloor>"
  consider "?n < 10" | "10 \<le> ?n" "?n < 100" | "100 \<le> ?n" by linarith
  then show ?thesis
  proof cases
    case 1
    then have "digits ?n = [digit_char ?n]" "digits (?n div 100) = [digit_char 0]"
      by (simp_all add: digits_small)
    with 1 show ?thesis
      by (simp add: toFixed_digits_def Let_def numeral_3_eq_3 digit_char_values)
  next
    case 2
    then have "?n div 100 = 0" "?n mod 100 = ?n" by auto
    moreover have "digits ?n = [digit_char (?n div 10), digit_char (?n mod 10)]"
      using 2 by (rule digits_two)
    moreover have "digits 0 = [digit_char 0]" by (simp add: digits_small)
    ultimately show ?thesis
      by (simp add: toFixed_digits_def Let_def digit_char_values)
  next
    case 3
    have "0 < length (digits (?n div 100))" by (rule length_digits_pos)
    moreover have "digits ?n
        = digits (?n div 100) @ [digit_char (?n mod 100 div 10), digit_char (?n mod 10)]"
      using 3 by (rule digits_hundred)
    ultimately show ?thesis
      by (simp add: toFixed_digits_def Let_def)
  qed
qed

lemma num_toFixed_two_decimals:
  assumes "\<bar>x\<bar> < 10 ^ 21"
  shows "num_toFixed env (Finite x) 2 = two_decimals x"
  using assms by (auto simp add: num_toFixed_def two_decimals_def toFixed_digits_2 Let_def abs_if)

text \<open>The hundredth that \<open>two_decimals\<close> writes is within half a hundredth of the value.\<close>

lemma two_decimals_nearest:
  "\<bar>of_nat (nat \<lfloor>\<bar>x\<bar> * 100 + 1 / 2\<rfloor>) / 100 - \<bar>x\<bar>\<bar> \<le> 1 / 200" for x :: real
proof -
  define y where "y = \<bar>x\<bar> * 100 + 1 / 2"
  define f :: real where "f = of_int \<lfloor>y\<rfloor>"
  have "0 \<le> \<lfloor>y\<rfloor>" by (simp add: y_def)
  then have n: "of_nat (nat \<lfloor>y\<rfloor>) = f" by (simp add: f_def)
  have lo: "f \<le> y" by (simp add: f_def)
  have hi: "y < f + 1" using floor_correct [of y] by (simp add: f_def)
  have x: "\<bar>x\<bar> = (y - 1 / 2) / 100" by (simp add: y_def)
  have "f / 100 - \<bar>x\<bar> = (f - y) / 100 + 1 / 200" by (simp add: x field_simps)
  moreover have "- 1 / 100 < (f - y) / 100" "(f - y) / 100 \<le> 0" using lo hi by simp_all
  ultimately have "\<bar>f / 100 - \<bar>x\<bar>\<bar> \<le> 1 / 200" by (auto simp add: abs_if field_simps)
  then show ?thesis by (simp add: n [unfolded y_def])
qed

lemma two_decimals_examples:
  "two_decimals 15 = ''15.00''" "two_decimals 80 = ''80.00''" "two_decimals 100 = ''100.00''"
  by (simp_all add: two_decimals_def digits.simps digit_char_values Let_def)

subsection \<open>The fetcher and the ways a decoration ends\<close>

text \<open>The two ways \<open>fetchProductData\<close> completes.\<close>

lemma fetchProductData_cases:
  obtains
    (threw) e where "fetchProductData env sku = ([], Inl e)"
      "getConfigValue env ''commerce-core-endpoint'' = Inl e
       \<or> getConfigValue env ''headers'' = Inl e"
  | (returned) endpoint hs tr v where
      "getConfigValue env ''commerce-core-endpoint'' = Inr endpoint"
      "getConfigValue env ''headers'' = Inr hs"
      "fetchProductData env sku = (tr, Inr v)" "emitted tr = []"
      "fetches tr = [product_request endpoint hs sku]" "truthy v \<or> v = JNull"
proof (cases "getConfigValue env ''commerce-core-endpoint''")
  case (Inl e)
  then have "fetchProductData env sku = ([], Inl e)" by (simp add: fetchProductData_def)
  with Inl show ?thesis by (auto intro: threw)
next
  case endpoint: (Inr endpoint)
  show ?thesis
  proof (cases "getConfigValue env ''headers''")
    case (Inl e)
    with endpoint have "fetchProductData env sku = ([], Inl e)"
      by (simp add: fetchProductData_def)
    with Inl show ?thesis by (auto intro: threw)
  next
    case hs: (Inr hs)
    have "\<exists>tr v. fetchProductData env sku = (tr, Inr v) \<and> emitted tr = []
       \<and> fetches tr = [product_request endpoint hs sku] \<and> (truthy v \<or> v = JNull)"
    proof (cases "fetch env (product_request endpoint hs sku)")
      case (Inl e)
      with endpoint hs show ?thesis by (simp add: fetchProductData_def Let_def)
    next
      case (Inr response)
      show ?thesis
      proof (cases "json response")
        case (Inl e)
        with endpoint hs Inr show ?thesis by (simp add: fetchProductData_def Let_def)
      next
        case data: (Inr data)
        show ?thesis
          using endpoint hs Inr data
          by (cases "nullish data")
            (simp_all add: fetchProductData_def Let_def get_prop_def js_or_def)
      qed
    qed
    with endpoint hs show ?thesis by (auto intro: returned)
  qed
qed

lemma classList_add_again:
  "classList_add token cl = Inr cl' \<Longrightarrow> classList_add token cl' = Inr cl'"
  by (auto simp add: classList_add_def split: if_splits)

lemma theme_token_accepted:
  assumes "\<not> list_ex ascii_whitespace t"
  shows "classList_add (''spotlight--'' @ t) cl =
     Inr (if ''spotlight--'' @ t \<in> set cl then cl else cl @ [''spotlight--'' @ t])"
proof -
  have "\<not> list_ex ascii_whitespace (''spotlight--'' @ t)"
    using assms by (simp add: ascii_whitespace_def list_ex_iff)
  then show ?thesis by (simp add: classList_add_def)
qed

lemma loaded_payload_eq:
  "truthy product \<Longrightarrow> loaded_payload product =
     Inr (JObj [(''sku'', prop_of product (Name ''sku'')),
                (''name'', prop_of product (Name ''name'')),
                (''price'', final_price_value product)])"
  by (auto simp add: loaded_payload_def get_prop_def final_price_value_def opt_prop_def Let_def
      dest: truthy_not_nullish)

text \<open>The six ways a decoration ends, each with the run it yields.\<close>

lemma decorate_cases:
  obtains
    (config_error) "config ''sku'' = None \<or> config ''sku'' = Some []"
      "decorate env labels config block =
         \<lparr>rejected = None, dom = block\<lparr>children := [Html sku_required_html]\<rparr>, trace = []\<rparr>"
  | (rejected) sku e where "config ''sku'' = Some sku" "sku \<noteq> []"
      "classList_add (theme_class config) (classList block) = Inl e"
      "decorate env labels config block = \<lparr>rejected = Some e, dom = block, trace = []\<rparr>"
  | (fetch_threw) sku cl e where "config ''sku'' = Some sku" "sku \<noteq> []"
      "classList_add (theme_class config) (classList block) = Inr cl"
      "fetchProductData env sku = ([], Inl e)"
      "decorate env labels config block =
         \<lparr>rejected = None,
          dom = block\<lparr>classList := cl, children := [Html error_loading_html]\<rparr>,
          trace = [ConsoleError ''Error in product spotlight block:'' e]\<rparr>"
  | (not_found) sku cl tr where "config ''sku'' = Some sku" "sku \<noteq> []"
      "classList_add (theme_class config) (classList block) = Inr cl"
      "fetchProductData env sku = (tr, Inr JNull)"
      "emitted tr = []" "fetches tr \<noteq> []"
      "decorate env labels config block =
         \<lparr>rejected = None,
          dom = block\<lparr>classList := cl, children := [Html not_found_html]\<rparr>,
          trace = tr\<rparr>"
  | (failed) sku cl tr product e where "config ''sku'' = Some sku" "sku \<noteq> []"
      "classList_add (theme_class config) (classList block) = Inr cl"
      "fetchProductData env sku = (tr, Inr product)" "truthy product"
      "emitted tr = []" "fetches tr \<noteq> []"
      "build_container env labels (title_of config) product = Inl e"
      "decorate env labels config block =
         \<lparr>rejected = None,
          dom = block\<lparr>classList := cl, children := [Html error_loading_html]\<rparr>,
          trace = tr @ [ConsoleError ''Error in product spotlight block:'' e]\<rparr>"
  | (rendered) sku cl tr product container where "config ''sku'' = Some sku" "sku \<noteq> []"
      "classList_add (theme_class config) (classList block) = Inr cl"
      "fetchProductData env sku = (tr, Inr product)" "truthy product"
      "emitted tr = []" "fetches tr \<noteq> []"
      "build_container env labels (title_of config) product = Inr container"
      "decorate env labels config block =
         \<lparr>rejected = None,
          dom = block\<lparr>classList := cl, children := [container]\<rparr>,
          trace = tr @ [Emit ''product-spotlight/loaded''
            (JObj [(''sku'', prop_of product (Name ''sku'')),
                   (''name'', prop_of product (Name ''name'')),
                   (''price'', final_price_value product)])]\<rparr>"
proof (cases "config ''sku'' = None \<or> config ''sku'' = Some []")
  case True
  then have "decorate env labels config block =
         \<lparr>rejected = None, dom = block\<lparr>children := [Html sku_required_html]\<rparr>, trace = []\<rparr>"
    by (auto simp add: decorate_def)
  with True show ?thesis by (rule config_error)
next
  case False
  then obtain sku where sku: "config ''sku'' = Some sku" "sku \<noteq> []" by auto
  show ?thesis
  proof (cases "classList_add (theme_class config) (classList block)")
    case (Inl e)
    then have "decorate env labels config block = \<lparr>rejected = Some e, dom = block, trace = []\<rparr>"
      using sku by (simp add: decorate_def theme_class_def)
    with sku Inl show ?thesis by (rule rejected)
  next
    case (Inr cl)
    show ?thesis
    proof (cases rule: fetchProductData_cases [of env sku])
      case (threw e)
      have "decorate env labels config block =
         \<lparr>rejected = None,
          dom = block\<lparr>classList := cl, children := [Html error_loading_html]\<rparr>,
          trace = [ConsoleError ''Error in product spotlight block:'' e]\<rparr>"
        using sku Inr threw(1) by (simp add: decorate_def theme_class_def try_block_def)
      with sku Inr threw(1) show ?thesis by (auto intro: fetch_threw)
    next
      case f: (returned endpoint hs tr v)
      from f(5) have reach: "fetches tr \<noteq> []" by simp
      show ?thesis
      proof (cases "truthy v")
        case False
        with f have v: "v = JNull" by simp
        have "decorate env labels config block =
           \<lparr>rejected = None,
            dom = block\<lparr>classList := cl, children := [Html not_found_html]\<rparr>,
            trace = tr\<rparr>"
          using sku Inr f(3) v by (simp add: decorate_def theme_class_def try_block_def)
        with sku Inr f(3,4) reach v show ?thesis by (auto intro: not_found)
      next
        case True
        note p = loaded_payload_eq [OF True]
        show ?thesis
        proof (cases "build_container env labels (title_of config) v")
          case e: (Inl e)
          have "decorate env labels config block =
           \<lparr>rejected = None,
            dom = block\<lparr>classList := cl, children := [Html error_loading_html]\<rparr>,
            trace = tr @ [ConsoleError ''Error in product spotlight block:'' e]\<rparr>"
            using sku Inr f(3) True e
            by (simp add: decorate_def theme_class_def try_block_def title_of_def)
          with sku Inr f(3,4) reach True e show ?thesis by (auto intro: failed)
        next
          case c: (Inr container)
          have "decorate env labels config block =
           \<lparr>rejected = None,
            dom = block\<lparr>classList := cl, children := [container]\<rparr>,
            trace = tr @ [Emit ''product-spotlight/loaded''
              (JObj [(''sku'', prop_of v (Name ''sku'')),
                     (''name'', prop_of v (Name ''name'')),
                     (''price'', final_price_value v)])]\<rparr>"
            using sku Inr f(3) True c p
            by (simp add: decorate_def theme_class_def try_block_def title_of_def)
          with sku Inr f(3,4) reach True c show ?thesis by (auto intro: rendered)
        qed
      qed
    qed
  qed
qed

lemma decorate_reaches_fetch:
  assumes "config ''sku'' = Some sku" "sku \<noteq> []"
      and "classList_add (theme_class config) (classList block) = Inr cl"
      and "getConfigValue env ''commerce-core-endpoint'' = Inr endpoint"
      and "getConfigValue env ''headers'' = Inr hs"
  shows "fetches (trace (decorate env labels config block)) \<noteq> []"
proof -
  have "fetchProductData env sku \<noteq> ([], Inl e)" for e
    using assms(4,5) by (cases rule: fetchProductData_cases [of env sku]) auto
  with assms(1-3) show ?thesis
    by (cases rule: decorate_cases [of config env labels block]) auto
qed

text \<open>
  A decoration reads the block it is given only for its class list; the content it
  leaves does not depend on the content it finds, unless \<open>classList.add\<close> throws and the
  block stays as it is.
\<close>

lemma decorate_reads_class_list:
  assumes "classList block2 = classList block"
  shows "rejected (decorate env labels config block2) = rejected (decorate env labels config block)"
    and "trace (decorate env labels config block2) = trace (decorate env labels config block)"
    and "rejected (decorate env labels config block) = None \<Longrightarrow>
           dom (decorate env labels config block2) = dom (decorate env labels config block)"
    and "rejected (decorate env labels config block) \<noteq> None \<Longrightarrow>
           dom (decorate env labels config block2) = block2"
  using assms
  by (auto simp add: decorate_def try_block_def Let_def
      split: sum.splits prod.splits if_splits)

text \<open>
  With the configuration held fixed, the body of \<open>decorate\<close> leaves the block that it
  has left as it is.
\<close>

lemma decorate_body_twice:
  "dom (decorate env labels config (dom (decorate env labels config block)))
     = dom (decorate env labels config block)"
  "rejected (decorate env labels config (dom (decorate env labels config block)))
     = rejected (decorate env labels config block)"
proof -
  have again: "classList_add (theme_class config) cl = Inr cl"
    if "classList_add (theme_class config) (classList block) = Inr cl" for cl
    using that by (rule classList_add_again)
  show "dom (decorate env labels config (dom (decorate env labels config block)))
     = dom (decorate env labels config block)"
  proof (cases rule: decorate_cases [of config env labels block])
    case config_error
    then show ?thesis by (auto simp add: decorate_def)
  next
    case (rejected sku e)
    then show ?thesis by simp
  next
    case (fetch_threw sku cl e)
    with again [OF fetch_threw(3)] show ?thesis
      by (simp add: decorate_def theme_class_def try_block_def)
  next
    case (not_found sku cl tr)
    with again [OF not_found(3)] show ?thesis
      by (simp add: decorate_def theme_class_def try_block_def)
  next
    case (failed sku cl tr product e)
    with again [OF failed(3)] show ?thesis
      by (simp add: decorate_def theme_class_def try_block_def title_of_def)
  next
    case (rendered sku cl tr product container)
    with again [OF rendered(3)] loaded_payload_eq [OF rendered(5)] show ?thesis
      by (simp add: decorate_def theme_class_def try_block_def title_of_def)
  qed
  show "rejected (decorate env labels config (dom (decorate env labels config block)))
     = rejected (decorate env labels config block)"
  proof (cases rule: decorate_cases [of config env labels block])
    case config_error
    then show ?thesis by (auto simp add: decorate_def)
  next
    case (rejected sku e)
    then show ?thesis by simp
  next
    case (fetch_threw sku cl e)
    with again [OF fetch_threw(3)] show ?thesis
      by (simp add: decorate_def theme_class_def try_block_def)
  next
    case (not_found sku cl tr)
    with again [OF not_found(3)] show ?thesis
      by (simp add: decorate_def theme_class_def try_block_def)
  next
    case (failed sku cl tr product e)
    with again [OF failed(3)] show ?thesis
      by (simp add: decorate_def theme_class_def try_block_def title_of_def)
  next
    case (rendered sku cl tr product container)
    with again [OF rendered(3)] loaded_payload_eq [OF rendered(5)] show ?thesis
      by (simp add: decorate_def theme_class_def try_block_def title_of_def)
  qed
qed

subsection \<open>What the view builder appends\<close>

lemma createProductImage_shape:
  assumes "createProductImage env product (Element t c ats ks) = Inr n"
  shows "\<exists>k. n = Element t c ats (ks @ [k]) \<and> by_class ''spotlight__title'' k = []"
  using assms
  by (auto simp add: createProductImage_def Let_def and_then_Inr_iff get_prop_Inr_iff
      createElement_def text_nodes_def split: if_splits)

lemma createProductImage_ok:
  assumes "\<not> nullish product"
  shows "\<exists>n. createProductImage env product (Element t c ats ks) = Inr n"
  using assms
  by (auto simp add: createProductImage_def Let_def get_prop_def opt_prop_def createElement_def
       split: if_splits)

lemma add_price_shape:
  assumes "add_price env product (Element t c ats ks) = Inr n"
  shows "\<exists>k. n = Element t c ats (ks @ [k]) \<and> by_class ''spotlight__title'' k = []"
  using assms
  by (auto simp add: add_price_def Let_def and_then_Inr_iff get_prop_Inr_iff createElement_def
      text_nodes_def split: if_splits)

lemma add_description_shape:
  assumes "add_description env product (Element t c ats ks) = Inr n"
  shows "\<exists>ds. n = Element t c ats (ks @ ds) \<and> concat (map (by_class ''spotlight__title'') ds) = []"
  using assms
  by (auto simp add: add_description_def Let_def and_then_Inr_iff get_prop_Inr_iff
      createElement_def html_nodes_def split: if_splits)

lemma add_description_ok:
  assumes "\<not> nullish product"
  shows "\<exists>ds. add_description env product (Element t c ats ks) = Inr (Element t c ats (ks @ ds))"
  using assms
  by (auto simp add: add_description_def Let_def get_prop_def opt_prop_def createElement_def)

lemma add_actions_shape:
  assumes "add_actions env product labels (Element t c ats ks) = Inr n"
  shows "\<exists>k. n = Element t c ats (ks @ [k]) \<and> by_class ''spotlight__title'' k = []"
  using assms
  by (auto simp add: add_actions_def Let_def and_then_Inr_iff get_prop_Inr_iff createElement_def
      render_def split: if_splits)

lemma add_actions_ok:
  assumes "\<not> nullish product"
  shows "\<exists>k. add_actions env product labels (Element t c ats ks) = Inr (Element t c ats (ks @ [k]))"
  using assms
  by (simp add: add_actions_def Let_def get_prop_def createElement_def render_def)

text \<open>The price container for pricing data of the expected shape.\<close>

lemma add_price_typed:
  assumes "truthy (minimum_price_of product)"
      and "prop_of (final_price_of product) (Name ''value'') = JNum (Finite f)" "\<bar>f\<bar> < 10 ^ 21"
      and "prop_of (regular_price_of product) (Name ''value'') = JNum (Finite r)" "\<bar>r\<bar> < 10 ^ 21"
  shows "add_price env product (Element t c ats ks) =
     Inr (Element t c ats (ks @
       [Element ''div'' ''spotlight__price-container'' []
          ((if f < r
            then [Element ''span'' ''spotlight__price-original'' []
                    [Text (to_string env (prop_of (final_price_of product) (Name ''currency''))
                       @ '' '' @ two_decimals r)]]
            else [])
           @ [Element ''span'' ''spotlight__price'' []
                [Text (to_string env (prop_of (final_price_of product) (Name ''currency''))
                   @ '' '' @ two_decimals f)]])]))"
proof -
  have p: "\<not> nullish product" using assms(1) by (rule minimum_price_not_nullish)
  have m: "\<not> nullish (minimum_price_of product)" using assms(1) by (rule truthy_not_nullish)
  have fp: "\<not> nullish (final_price_of product)" using assms(2) by (rule prop_not_nullish)
  have rp: "\<not> nullish (regular_price_of product)" using assms(4) by (rule prop_not_nullish)
  show ?thesis
    using p m fp rp assms
    by (simp add: add_price_def Let_def get_prop_def toFixed_def num_toFixed_two_decimals
        createElement_def text_nodes_def minimum_price_of_def final_price_of_def
        regular_price_of_def)
qed

text \<open>The price throws on a minimum price without a final price of a numeric value.\<close>

lemma add_price_throws:
  assumes "truthy (minimum_price_of product)"
      and "nullish (final_price_of product)
         \<or> (\<forall>n. prop_of (final_price_of product) (Name ''value'') \<noteq> JNum n)"
  shows "add_price env product infoContainer = Inl TypeError"
proof -
  have p: "\<not> nullish product" using assms(1) by (rule minimum_price_not_nullish)
  have m: "\<not> nullish (minimum_price_of product)" using assms(1) by (rule truthy_not_nullish)
  show ?thesis
    using p m assms
    by (auto simp add: add_price_def Let_def get_prop_def toFixed_def minimum_price_of_def
        final_price_of_def split: jsval.splits)
qed

lemma build_container_throws:
  assumes "truthy (minimum_price_of product)"
      and "nullish (final_price_of product)
         \<or> (\<forall>n. prop_of (final_price_of product) (Name ''value'') \<noteq> JNum n)"
  shows "build_container env labels title product = Inl TypeError"
proof -
  have p: "\<not> nullish product" using assms(1) by (rule minimum_price_not_nullish)
  have info: "createProductInfo env product labels n = Inl TypeError" for n
    using p add_price_throws [OF assms]
    by (simp add: createProductInfo_def Let_def get_prop_def)
  obtain n where "createProductImage env product
      (Element ''div'' ''spotlight__content'' [] []) = Inr n"
    using createProductImage_ok [OF p] by blast
  then show ?thesis
    by (simp add: build_container_def Let_def info createElement_def)
qed

text \<open>
  The container of a successful render: the title element, if any, then the content
  wrapper, which holds no title element.
\<close>

lemma build_container_shape:
  assumes "build_container env labels title product = Inr container"
  shows "\<exists>ks. container =
      Element ''div'' ''spotlight__container'' []
        ((if title = ''Featured Product'' \<or> title = [] then []
          else [Element ''h2'' ''spotlight__title'' [] [Text title]])
         @ [Element ''div'' ''spotlight__content'' [] ks])
      \<and> concat (map (by_class ''spotlight__title'') ks) = []"
proof -
  let ?name = "Element ''h2'' ''spotlight__name'' []
     (text_nodes (text_of env (prop_of product (Name ''name''))))"
  from assms obtain w1 w2 where
    w1: "createProductImage env product (Element ''div'' ''spotlight__content'' [] []) = Inr w1" and
    w2: "createProductInfo env product labels w1 = Inr w2" and
    c: "container = appendChild
         (if title \<noteq> [] \<and> title \<noteq> ''Featured Product''
          then Element ''div'' ''spotlight__container'' []
                 [Element ''h2'' ''spotlight__title'' [] (text_nodes title)]
          else Element ''div'' ''spotlight__container'' [] []) w2"
    by (auto simp add: build_container_def Let_def and_then_Inr_iff createElement_def
        split: if_splits)
  from createProductImage_shape [OF w1] obtain k1 where
    k1: "w1 = Element ''div'' ''spotlight__content'' [] [k1]" "by_class ''spotlight__title'' k1 = []"
    by auto
  from w2 obtain i1 i2 i3 where
    i1: "add_price env product (Element ''div'' ''spotlight__info'' [] [?name]) = Inr i1" and
    i2: "add_description env product i1 = Inr i2" and
    i3: "add_actions env product labels i2 = Inr i3" and
    w2': "w2 = appendChild w1 i3"
    by (auto simp add: createProductInfo_def Let_def and_then_Inr_iff get_prop_Inr_iff
        createElement_def)
  from add_price_shape [OF i1] obtain a1 where
    a1: "i1 = Element ''div'' ''spotlight__info'' [] ([?name] @ [a1])"
        "by_class ''spotlight__title'' a1 = []"
    by auto
  from add_description_shape [OF i2 [unfolded a1(1)]] obtain ds where
    ds: "i2 = Element ''div'' ''spotlight__info'' [] (([?name] @ [a1]) @ ds)"
        "concat (map (by_class ''spotlight__title'') ds) = []"
    by auto
  from add_actions_shape [OF i3 [unfolded ds(1)]] obtain a3 where
    a3: "i3 = Element ''div'' ''spotlight__info'' [] ((([?name] @ [a1]) @ ds) @ [a3])"
        "by_class ''spotlight__title'' a3 = []"
    by auto
  have "by_class ''spotlight__title'' i3 = []"
    using a1(2) ds(2) a3(2) by (simp add: a3(1) text_nodes_def)
  with k1 w2' c show ?thesis
    by (auto simp add: text_nodes_def)
qed

subsection \<open>The example product\<close>

lemma test_mug_fetched:
  assumes "getConfigValue env ''commerce-core-endpoint'' = Inr endpoint"
      and "getConfigValue env ''headers'' = Inr hs"
      and "fetch env (product_request endpoint hs ''24-MB01'') =
             Inr \<lparr>json = Inr (reply_with (test_mug # others))\<rparr>"
  shows "fetchProductData env ''24-MB01'' =
           ([Fetch (product_request endpoint hs ''24-MB01'')], Inr test_mug)"
  using assms
  by (simp add: fetchProductData_def Let_def get_prop_def opt_prop_def js_or_def reply_with_def
      test_mug_def priced_mug_def)

lemma test_mug_container:
  "\<exists>p1 p2 p3. build_container env labels title test_mug =
      Inr (Element ''div'' ''spotlight__container'' []
        ((if title = ''Featured Product'' \<or> title = [] then []
          else [Element ''h2'' ''spotlight__title'' [] [Text title]])
         @ [test_mug_content p1 p2 p3]))"
proof -
  let ?image = "Element ''div'' ''spotlight__image-container'' []
     [Element ''div'' ''spotlight__image-placeholder'' [] [Text ''No Image Available'']]"
  let ?name = "Element ''h2'' ''spotlight__name'' [] [Text ''Test Mug'']"
  let ?price = "Element ''div'' ''spotlight__price-container'' []
     [Element ''span'' ''spotlight__price'' [] [Text ''USD 15.00'']]"
  have t: "\<not> nullish test_mug" by (simp add: test_mug_def priced_mug_def)
  have name: "text_of env (prop_of test_mug (Name ''name'')) = ''Test Mug''"
    by (simp add: text_of_def test_mug_def priced_mug_def)
  have img: "createProductImage env test_mug (Element ''div'' ''spotlight__content'' [] []) =
      Inr (Element ''div'' ''spotlight__content'' [] [?image])"
    by (simp add: createProductImage_def Let_def get_prop_def opt_prop_def createElement_def
        text_nodes_def test_mug_def priced_mug_def)
  have price: "add_price env test_mug (Element ''div'' ''spotlight__info'' [] [?name]) =
      Inr (Element ''div'' ''spotlight__info'' [] [?name, ?price])"
    by (simp add: add_price_def Let_def get_prop_def opt_prop_def createElement_def text_nodes_def
        test_mug_def priced_mug_def toFixed_def num_toFixed_two_decimals two_decimals_examples)
  have desc: "add_description env test_mug n = Inr n" for n
    by (simp add: add_description_def get_prop_def opt_prop_def test_mug_def priced_mug_def)
  have "\<exists>p1 p2 p3. add_actions env test_mug labels
        (Element ''div'' ''spotlight__info'' [] [?name, ?price]) =
      Inr (Element ''div'' ''spotlight__info'' []
        [?name, ?price,
         Element ''div'' ''spotlight__actions'' []
           [Element ''div'' ''spotlight__add-to-cart'' [] [Component ''Button'' p1],
            Element ''div'' ''spotlight__view-product'' [] [Component ''Button'' p2],
            Element ''div'' ''spotlight__wishlist'' [] [Component ''WishlistToggle'' p3]]])"
    by (simp add: add_actions_def Let_def get_prop_def createElement_def render_def
        test_mug_def priced_mug_def)
  then obtain p1 p2 p3 where actions: "add_actions env test_mug labels
        (Element ''div'' ''spotlight__info'' [] [?name, ?price]) =
      Inr (Element ''div'' ''spotlight__info'' []
        [?name, ?price,
         Element ''div'' ''spotlight__actions'' []
           [Element ''div'' ''spotlight__add-to-cart'' [] [Component ''Button'' p1],
            Element ''div'' ''spotlight__view-product'' [] [Component ''Button'' p2],
            Element ''div'' ''spotlight__wishlist'' [] [Component ''WishlistToggle'' p3]]])"
    by blast
  have info: "createProductInfo env test_mug labels
        (Element ''div'' ''spotlight__content'' [] [?image]) = Inr (test_mug_content p1 p2 p3)"
    using t
    by (simp add: createProductInfo_def Let_def get_prop_def createElement_def name
        text_nodes_def price desc actions test_mug_content_def)
  have "build_container env labels title test_mug =
      Inr (Element ''div'' ''spotlight__container'' []
        ((if title = ''Featured Product'' \<or> title = [] then []
          else [Element ''h2'' ''spotlight__title'' [] [Text title]])
         @ [test_mug_content p1 p2 p3]))"
    by (simp add: build_container_def Let_def createElement_def img info text_nodes_def)
  then show ?thesis by blast
qed

lemma test_mug_decoration:
  assumes "getConfigValue env ''commerce-core-endpoint'' = Inr endpoint"
      and "getConfigValue env ''headers'' = Inr hs"
      and "fetch env (product_request endpoint hs ''24-MB01'') =
             Inr \<lparr>json = Inr (reply_with (test_mug # others))\<rparr>"
      and "config ''sku'' = Some ''24-MB01''"
      and "classList_add (theme_class config) (classList block) = Inr cl"
  shows "\<exists>p1 p2 p3. decorate env labels config block =
      \<lparr>rejected = None,
       dom = block\<lparr>classList := cl,
         children := [Element ''div'' ''spotlight__container'' []
           ((if title_of config = ''Featured Product'' \<or> title_of config = [] then []
             else [Element ''h2'' ''spotlight__title'' [] [Text (title_of config)]])
            @ [test_mug_content p1 p2 p3])]\<rparr>,
       trace = [Fetch (product_request endpoint hs ''24-MB01''),
                Emit ''product-spotlight/loaded''
                  (JObj [(''sku'', JStr ''24-MB01''), (''name'', JStr ''Test Mug''),
                         (''price'', JNum (Finite 15))])]\<rparr>"
proof -
  obtain p1 p2 p3 where b: "build_container env labels (title_of config) test_mug =
      Inr (Element ''div'' ''spotlight__container'' []
        ((if title_of config = ''Featured Product'' \<or> title_of config = [] then []
          else [Element ''h2'' ''spotlight__title'' [] [Text (title_of config)]])
         @ [test_mug_content p1 p2 p3]))"
    using test_mug_container by blast
  note f = test_mug_fetched [OF assms(1-3)]
  have payload: "prop_of test_mug (Name ''sku'') = JStr ''24-MB01''"
    "prop_of test_mug (Name ''name'') = JStr ''Test Mug''"
    "final_price_value test_mug = JNum (Finite 15)"
    by (simp_all add: final_price_value_def test_mug_def priced_mug_def)
  have "decorate env labels config block =
      \<lparr>rejected = None,
       dom = block\<lparr>classList := cl,
         children := [Element ''div'' ''spotlight__container'' []
           ((if title_of config = ''Featured Product'' \<or> title_of config = [] then []
             else [Element ''h2'' ''spotlight__title'' [] [Text (title_of config)]])
            @ [test_mug_content p1 p2 p3])]\<rparr>,
       trace = [Fetch (product_request endpoint hs ''24-MB01''),
                Emit ''product-spotlight/loaded''
                  (JObj [(''sku'', JStr ''24-MB01''), (''name'', JStr ''Test Mug''),
                         (''price'', JNum (Finite 15))])]\<rparr>"
  proof (cases rule: decorate_cases [of config env labels block])
    case config_error
    with assms(4) show ?thesis by simp
  next
    case (rejected sku e)
    with assms(5) show ?thesis by simp
  next
    case (fetch_threw sku cl' e)
    with assms(4) f show ?thesis by simp
  next
    case (not_found sku cl' tr)
    with assms(4) f show ?thesis by (simp add: test_mug_def priced_mug_def)
  next
    case (failed sku cl' tr product e)
    with assms(4) f b show ?thesis by simp
  next
    case (rendered sku cl' tr product container)
    with assms(4,5) f b payload show ?thesis by simp
  qed
  then show ?thesis by blast
qed

lemma offline_env_config [simp]:
  "getConfigValue offline_env ''commerce-core-endpoint'' = Inr (JStr ''/graphql'')"
  "getConfigValue offline_env ''headers'' = Inr JUndefined"
  by (simp_all add: offline_env_def)

lemma backend_env_config [simp]:
  "getConfigValue (backend_env reply) ''commerce-core-endpoint'' = Inr (JStr ''/graphql'')"
  "getConfigValue (backend_env reply) ''headers'' = Inr JUndefined"
  by (simp_all add: backend_env_def)

lemma unconfigured_env_config [simp]:
  "getConfigValue unconfigured_env k = Inl (Error ''Configuration not initialized'')"
  by (simp add: unconfigured_env_def)

lemma backend_env_fetch [simp]: "fetch (backend_env reply) req = Inr \<lparr>json = Inr reply\<rparr>"
  by (simp add: backend_env_def)

lemma offline_env_fetch [simp]: "fetch offline_env req = Inl (NetworkError ''Failed to fetch'')"
  by (simp add: offline_env_def)

lemma plain_block_classes:
  "\<not> list_ex ascii_whitespace t \<Longrightarrow> ''spotlight--'' @ t \<notin> set (classList plain_block)"
  "\<not> list_ex ascii_whitespace t \<Longrightarrow>
     classList_add (''spotlight--'' @ t) (classList plain_block)
       = Inr [''product-spotlight'', ''block'', ''spotlight--'' @ t]"
  using theme_token_accepted [of t "classList plain_block"]
  by (simp_all add: plain_block_def ascii_whitespace_def list_ex_iff)

lemma no_whitespace_examples:
  "\<not> list_ex ascii_whitespace ''default''" "\<not> list_ex ascii_whitespace ''dark''"
  "\<not> list_ex ascii_whitespace ''ocean''" "\<not> list_ex ascii_whitespace []"
  by (simp_all add: ascii_whitespace_def)

lemma table_reader_mug_table:
  "children block = mug_table \<Longrightarrow>
     table_reader block = [''sku'' \<mapsto> ''24-MB01'', ''theme'' \<mapsto> ''dark'']"
  by (simp add: table_reader_def mug_table_def table_row_def text_nodes_def
      List.map_filter_simps)

lemma authored_block_decoration:
  "\<exists>p1 p2 p3.
     decorate_block table_reader (backend_env (reply_with [test_mug])) [] authored_block =
       \<lparr>rejected = None,
        dom = \<lparr>classList = [''product-spotlight'', ''block'', ''spotlight--dark''],
               children = [Element ''div'' ''spotlight__container'' []
                 [test_mug_content p1 p2 p3]]\<rparr>,
        trace = [Fetch mug_request,
                 Emit ''product-spotlight/loaded''
                   (JObj [(''sku'', JStr ''24-MB01''), (''name'', JStr ''Test Mug''),
                          (''price'', JNum (Finite 15))])]\<rparr>"
proof -
  let ?config = "[''sku'' \<mapsto> ''24-MB01'', ''theme'' \<mapsto> ''dark'']"
  have r: "table_reader authored_block = ?config"
    by (rule table_reader_mug_table) (simp add: authored_block_def)
  have cl: "classList_add (theme_class ?config) (classList authored_block)
      = Inr [''product-spotlight'', ''block'', ''spotlight--dark'']"
    by (simp add: theme_class_def classList_add_def ascii_whitespace_def authored_block_def)
  from test_mug_decoration [of "backend_env (reply_with [test_mug])" _ _ "[]" ?config
      authored_block _ "[]", OF backend_env_config _ _ cl]
  obtain p1 p2 p3 where
    d: "decorate (backend_env (reply_with [test_mug])) [] ?config authored_block =
      \<lparr>rejected = None,
       dom = authored_block\<lparr>classList := [''product-spotlight'', ''block'', ''spotlight--dark''],
         children := [Element ''div'' ''spotlight__container'' [] [test_mug_content p1 p2 p3]]\<rparr>,
       trace = [Fetch mug_request,
                Emit ''product-spotlight/loaded''
                  (JObj [(''sku'', JStr ''24-MB01''), (''name'', JStr ''Test Mug''),
                         (''price'', JNum (Finite 15))])]\<rparr>"
    by (auto simp add: title_of_def mug_request_def)
  have "authored_block\<lparr>classList := cl, children := ks\<rparr> = \<lparr>classList = cl, children = ks\<rparr>"
    for cl ks
    by (simp add: authored_block_def)
  with d r show ?thesis
    by (auto simp add: decorate_block_def)
qed

text \<open>
  The block as the first decoration leaves it holds no table any more: with this
  reader a second decoration of it finds no \<open>sku\<close> and shows "Product SKU is required".
\<close>

lemma overwritten_block_decoration:
  "state_of (decorate_block table_reader (backend_env (reply_with [test_mug])) []
     (dom (decorate_block table_reader (backend_env (reply_with [test_mug])) [] authored_block)))
   = Some ConfigError"
proof -
  from authored_block_decoration obtain p1 p2 p3 where
    "decorate_block table_reader (backend_env (reply_with [test_mug])) [] authored_block =
       \<lparr>rejected = None,
        dom = \<lparr>classList = [''product-spotlight'', ''block'', ''spotlight--dark''],
               children = [Element ''div'' ''spotlight__container'' []
                 [test_mug_content p1 p2 p3]]\<rparr>,
        trace = [Fetch mug_request,
                 Emit ''product-spotlight/loaded''
                   (JObj [(''sku'', JStr ''24-MB01''), (''name'', JStr ''Test Mug''),
                          (''price'', JNum (Finite 15))])]\<rparr>"
    by blast
  then show ?thesis
    by (simp add: decorate_block_def table_reader_def List.map_filter_simps decorate_def
        state_of_def)
qed

subsection \<open>The claims\<close>

text \<open>
  C1. When the configuration has no \<open>sku\<close> key, or maps it to the empty string, the
  decoration is fulfilled in the ConfigError state: the content of the block is the
  fixed message "Product SKU is required", its class list is untouched, and the trace
  is empty, so no request has been sent.
\<close>

theorem decorate_config_error:
  assumes "config ''sku'' = None \<or> config ''sku'' = Some []"
  shows "rejected (decorate env labels config block) = None
       \<and> state_of (decorate env labels config block) = Some ConfigError
       \<and> children (dom (decorate env labels config block)) = [Html sku_required_html]
       \<and> classList (dom (decorate env labels config block)) = classList block
       \<and> trace (decorate env labels config block) = []
       \<and> fetches (trace (decorate env labels config block)) = []"
  using assms by (auto simp add: decorate_def state_of_def)

theorem decorate_config_error_witness:
  "[''title'' \<mapsto> ''Staff Pick'', ''sku'' \<mapsto> []] ''sku'' = Some []
   \<and> state_of (decorate (backend_env (reply_with [test_mug])) []
        [''title'' \<mapsto> ''Staff Pick'', ''sku'' \<mapsto> []] plain_block) = Some ConfigError
   \<and> fetches (trace (decorate (backend_env (reply_with [test_mug])) []
        [''title'' \<mapsto> ''Staff Pick'', ''sku'' \<mapsto> []] plain_block)) = []
   \<and> state_of (decorate (backend_env (reply_with [test_mug])) []
        [''title'' \<mapsto> ''Staff Pick''] plain_block) = Some ConfigError
   \<and> fetches (trace (decorate (backend_env (reply_with [test_mug])) []
        [''title'' \<mapsto> ''Staff Pick''] plain_block)) = []"
  using
    decorate_config_error [of "[''title'' \<mapsto> ''Staff Pick'', ''sku'' \<mapsto> []]"
      "backend_env (reply_with [test_mug])" "[]" plain_block]
    decorate_config_error [of "[''title'' \<mapsto> ''Staff Pick'']"
      "backend_env (reply_with [test_mug])" "[]" plain_block]
  by simp

text \<open>
  C2, as amended. When the two calls of \<open>getConfigValue\<close> return, \<open>fetchProductData\<close>
  completes without an exception, whatever the endpoint, the headers, the response or
  the exception of the transport or of the parser. When \<open>fetch\<close> throws, when
  \<open>response.json()\<close> throws, and when the parsed body is \<open>null\<close> or \<open>undefined\<close> (so that
  reading \<open>data.data\<close> throws), it logs the exception and returns \<open>null\<close>. For every other
  parsed body it logs nothing and returns \<open>data.data?.products?.[0]\<close> when that is truthy,
  and \<open>null\<close> otherwise.
\<close>

theorem fetchProductData_catches:
  assumes "getConfigValue env ''commerce-core-endpoint'' = Inr endpoint"
      and "getConfigValue env ''headers'' = Inr hs"
  shows "(\<exists>v. snd (fetchProductData env sku) = Inr v)
   \<and> (\<forall>e. fetch env (product_request endpoint hs sku) = Inl e \<longrightarrow>
         fetchProductData env sku =
           ([Fetch (product_request endpoint hs sku),
             ConsoleError ''Error fetching product data:'' e],
            Inr JNull))
   \<and> (\<forall>response e.
         fetch env (product_request endpoint hs sku) = Inr response \<and> json response = Inl e \<longrightarrow>
         fetchProductData env sku =
           ([Fetch (product_request endpoint hs sku),
             ConsoleError ''Error fetching product data:'' e],
            Inr JNull))
   \<and> (\<forall>response data.
         fetch env (product_request endpoint hs sku) = Inr response \<and> json response = Inr data
           \<and> nullish data \<longrightarrow>
         fetchProductData env sku =
           ([Fetch (product_request endpoint hs sku),
             ConsoleError ''Error fetching product data:'' TypeError],
            Inr JNull))
   \<and> (\<forall>response data.
         fetch env (product_request endpoint hs sku) = Inr response \<and> json response = Inr data
           \<and> \<not> nullish data \<longrightarrow>
         fetchProductData env sku =
           ([Fetch (product_request endpoint hs sku)],
            Inr (js_or (opt_prop (opt_prop (prop_of data (Name ''data'')) (Name ''products''))
                   (Index 0)) JNull)))"
  using assms
  by (auto simp add: fetchProductData_def Let_def get_prop_def and_then_def split: sum.splits)

theorem fetchProductData_catches_witness:
  "getConfigValue offline_env ''commerce-core-endpoint'' = Inr (JStr ''/graphql'')
   \<and> getConfigValue offline_env ''headers'' = Inr JUndefined
   \<and> fetch offline_env mug_request = Inl (NetworkError ''Failed to fetch'')
   \<and> fetchProductData offline_env ''24-MB01'' =
       ([Fetch mug_request,
         ConsoleError ''Error fetching product data:'' (NetworkError ''Failed to fetch'')],
        Inr JNull)
   \<and> fetch (backend_env JNull) mug_request = Inr \<lparr>json = Inr JNull\<rparr>
   \<and> fetchProductData (backend_env JNull) ''24-MB01'' =
       ([Fetch mug_request, ConsoleError ''Error fetching product data:'' TypeError],
        Inr JNull)
   \<and> fetchProductData (backend_env (reply_with [test_mug])) ''24-MB01'' =
       ([Fetch mug_request], Inr test_mug)"
  using
    fetchProductData_catches [OF offline_env_config, of "''24-MB01''"]
    fetchProductData_catches [OF backend_env_config, of JNull "''24-MB01''"]
    fetchProductData_catches [OF backend_env_config, of "reply_with [test_mug]" "''24-MB01''"]
  by (simp add: mug_request_def reply_with_def js_or_def opt_prop_def test_mug_def priced_mug_def)

text \<open>
  C2 as stated fails twice. With a configuration that is not initialised,
  \<open>getConfigValue\<close> throws before the \<open>try\<close> block: the exception leaves
  \<open>fetchProductData\<close>, nothing is logged and no request is sent. And for the parseable
  but malformed body \<open>{"data": {"products": "xyz"}}\<close> nothing is logged and the result is
  not \<open>null\<close> but the string \<open>"x"\<close>.
\<close>

theorem fetchProductData_catches_counterexample:
  "fetchProductData unconfigured_env ''24-MB01'' = ([], Inl (Error ''Configuration not initialized''))
   \<and> fetchProductData (backend_env (JObj [(''data'', JObj [(''products'', JStr ''xyz'')])])) ''24-MB01''
       = ([Fetch mug_request], Inr (JStr ''x''))"
  by (simp add: fetchProductData_def Let_def get_prop_def opt_prop_def js_or_def mug_request_def)

text \<open>
  C3. A decoration that ends in the Rendered state has fetched a product and emits
  exactly one event, \<open>product-spotlight/loaded\<close>, whose payload holds the \<open>sku\<close> and the
  \<open>name\<close> of the product and, as \<open>price\<close>, the value of its final price, or \<open>undefined\<close>
  when pricing data is absent. A decoration that ends in any other way (ConfigError,
  NotFound, FetchError, or rejected) emits no event. A decoration that reaches the
  fetch, receives a product and builds the container ends in the Rendered state.
\<close>

theorem loaded_event_once:
  "(state_of (decorate env labels config block) = Some Rendered \<longrightarrow>
      (\<exists>sku product.
         config ''sku'' = Some sku
         \<and> snd (fetchProductData env sku) = Inr product \<and> truthy product
         \<and> emitted (trace (decorate env labels config block)) =
             [(''product-spotlight/loaded'',
               JObj [(''sku'', prop_of product (Name ''sku'')),
                     (''name'', prop_of product (Name ''name'')),
                     (''price'', final_price_value product)])]))
   \<and> (state_of (decorate env labels config block) \<noteq> Some Rendered \<longrightarrow>
         emitted (trace (decorate env labels config block)) = [])
   \<and> (\<forall>sku product container.
         config ''sku'' = Some sku \<and> fetches (trace (decorate env labels config block)) \<noteq> []
         \<and> snd (fetchProductData env sku) = Inr product \<and> truthy product
         \<and> build_container env labels (title_of config) product = Inr container \<longrightarrow>
         state_of (decorate env labels config block) = Some Rendered)"
proof (cases rule: decorate_cases [of config env labels block])
  case config_error
  then show ?thesis by (auto simp add: state_of_def)
next
  case (rejected sku e)
  then show ?thesis by (simp add: state_of_def)
next
  case (fetch_threw sku cl e)
  then show ?thesis by (simp add: state_of_def)
next
  case (not_found sku cl tr)
  then show ?thesis by (simp add: state_of_def)
next
  case (failed sku cl tr product e)
  then show ?thesis by (simp add: state_of_def)
next
  case (rendered sku cl tr product container)
  from build_container_shape [OF rendered(8)] obtain ks where
    "container = Element ''div'' ''spotlight__container'' [] ks" by blast
  with rendered show ?thesis by (simp add: state_of_def)
qed

theorem loaded_event_once_witness:
  "state_of (decorate (backend_env (reply_with [test_mug])) [] [''sku'' \<mapsto> ''24-MB01''] plain_block)
     = Some Rendered
   \<and> emitted (trace (decorate (backend_env (reply_with [test_mug])) []
        [''sku'' \<mapsto> ''24-MB01''] plain_block)) =
       [(''product-spotlight/loaded'',
         JObj [(''sku'', JStr ''24-MB01''), (''name'', JStr ''Test Mug''),
               (''price'', JNum (Finite 15))])]
   \<and> state_of (decorate offline_env [] [''sku'' \<mapsto> ''24-MB01''] plain_block) = Some NotFound
   \<and> emitted (trace (decorate offline_env [] [''sku'' \<mapsto> ''24-MB01''] plain_block)) = []"
proof -
  let ?config = "[''sku'' \<mapsto> ''24-MB01'']"
  let ?env = "backend_env (reply_with [test_mug])"
  have tc: "theme_class ?config = ''spotlight--'' @ ''default''" by (simp add: theme_class_def)
  have cl: "classList_add (theme_class ?config) (classList plain_block)
      = Inr [''product-spotlight'', ''block'', ''spotlight--'' @ ''default'']"
    unfolding tc by (rule plain_block_classes) (rule no_whitespace_examples)
  have r: "state_of (decorate ?env [] ?config plain_block) = Some Rendered"
    using test_mug_decoration [of ?env _ _ "[]" ?config plain_block _ "[]",
        OF backend_env_config _ _ cl]
    by (auto simp add: state_of_def title_of_def)
  have f: "fetchProductData ?env ''24-MB01'' = ([Fetch mug_request], Inr test_mug)"
    unfolding mug_request_def
    by (rule test_mug_fetched [of _ _ _ "[]", OF backend_env_config]) simp
  from r loaded_event_once [of ?env "[]" ?config plain_block]
  obtain sku product where
    "?config ''sku'' = Some sku" "snd (fetchProductData ?env sku) = Inr product"
    "emitted (trace (decorate ?env [] ?config plain_block)) =
       [(''product-spotlight/loaded'',
         JObj [(''sku'', prop_of product (Name ''sku'')),
               (''name'', prop_of product (Name ''name'')),
               (''price'', final_price_value product)])]"
    by blast
  with f have e: "emitted (trace (decorate ?env [] ?config plain_block)) =
       [(''product-spotlight/loaded'',
         JObj [(''sku'', JStr ''24-MB01''), (''name'', JStr ''Test Mug''),
               (''price'', JNum (Finite 15))])]"
    by (auto simp add: final_price_value_def test_mug_def priced_mug_def)
  have "fetchProductData offline_env ''24-MB01'' =
      ([Fetch mug_request,
        ConsoleError ''Error fetching product data:'' (NetworkError ''Failed to fetch'')],
       Inr JNull)"
    by (simp add: fetchProductData_def Let_def mug_request_def)
  then have n: "state_of (decorate offline_env [] ?config plain_block) = Some NotFound"
    using cl [unfolded theme_class_def]
    by (simp add: decorate_def try_block_def state_of_def)
  with loaded_event_once [of offline_env "[]" ?config plain_block]
  have "emitted (trace (decorate offline_env [] ?config plain_block)) = []" by simp
  with r e n show ?thesis by simp
qed

text \<open>
  C4. In a decoration with a non-empty \<open>sku\<close> that reaches the fetch, when
  \<open>fetchProductData\<close> returns \<open>null\<close>, the decoration is fulfilled in the NotFound state:
  the content of the block is the fixed message "Product not found" and nothing else,
  and no event is emitted.
\<close>

theorem decorate_not_found:
  assumes "config ''sku'' = Some sku" "sku \<noteq> []"
      and "fetches (trace (decorate env labels config block)) \<noteq> []"
      and "snd (fetchProductData env sku) = Inr JNull"
  shows "rejected (decorate env labels config block) = None
       \<and> state_of (decorate env labels config block) = Some NotFound
       \<and> children (dom (decorate env labels config block)) = [Html not_found_html]
       \<and> emitted (trace (decorate env labels config block)) = []"
proof (cases rule: decorate_cases [of config env labels block])
  case config_error
  with assms show ?thesis by auto
next
  case (rejected sku e)
  with assms show ?thesis by simp
next
  case (fetch_threw sku cl e)
  with assms show ?thesis by simp
next
  case (not_found sku cl tr)
  then show ?thesis by (simp add: state_of_def)
next
  case (failed sku' cl tr product e)
  with assms show ?thesis by simp
next
  case (rendered sku' cl tr product container)
  with assms show ?thesis by simp
qed

theorem decorate_not_found_witness:
  "snd (fetchProductData (backend_env (reply_with [])) ''24-MB01'') = Inr JNull
   \<and> fetches (trace (decorate (backend_env (reply_with [])) []
        [''sku'' \<mapsto> ''24-MB01'', ''theme'' \<mapsto> ''dark''] plain_block)) = [mug_request]
   \<and> state_of (decorate (backend_env (reply_with [])) []
        [''sku'' \<mapsto> ''24-MB01'', ''theme'' \<mapsto> ''dark''] plain_block) = Some NotFound
   \<and> children (dom (decorate (backend_env (reply_with [])) []
        [''sku'' \<mapsto> ''24-MB01'', ''theme'' \<mapsto> ''dark''] plain_block)) = [Html not_found_html]
   \<and> emitted (trace (decorate (backend_env (reply_with [])) []
        [''sku'' \<mapsto> ''24-MB01'', ''theme'' \<mapsto> ''dark''] plain_block)) = []"
proof -
  let ?config = "[''sku'' \<mapsto> ''24-MB01'', ''theme'' \<mapsto> ''dark'']"
  let ?env = "backend_env (reply_with [])"
  have tc: "theme_class ?config = ''spotlight--'' @ ''dark''" by (simp add: theme_class_def)
  have cl: "classList_add (theme_class ?config) (classList plain_block)
      = Inr [''product-spotlight'', ''block'', ''spotlight--'' @ ''dark'']"
    unfolding tc by (rule plain_block_classes) (rule no_whitespace_examples)
  have f: "fetchProductData ?env ''24-MB01'' = ([Fetch mug_request], Inr JNull)"
    by (simp add: fetchProductData_def Let_def get_prop_def opt_prop_def js_or_def reply_with_def
        mug_request_def)
  then have null: "snd (fetchProductData ?env ''24-MB01'') = Inr JNull" by simp
  have reach: "fetches (trace (decorate ?env [] ?config plain_block)) = [mug_request]"
    using cl [unfolded theme_class_def] f by (simp add: decorate_def try_block_def)
  then have "fetches (trace (decorate ?env [] ?config plain_block)) \<noteq> []" by simp
  from decorate_not_found [of ?config "''24-MB01''" ?env "[]" plain_block, OF _ _ this null]
    reach null
  show ?thesis by simp
qed

text \<open>
  C5, as amended. For every product whose minimum price is present, whose final price
  has a finite numeric value below \<open>10\<^sup>2\<^sup>1\<close> in magnitude and whose regular price has
  such a value too, \<open>createProductInfo\<close> returns, and the price container that follows
  the name holds the final price as the currency, a space and the value to two decimal
  places. When the final value is below the regular value, an original-price element
  with the regular price in the same format comes first in the price container; when
  it is not below (equal, in particular), the final-price element is alone.
\<close>

theorem price_rendering:
  assumes "truthy (minimum_price_of product)"
      and "prop_of (final_price_of product) (Name ''value'') = JNum (Finite f)" "\<bar>f\<bar> < 10 ^ 21"
      and "prop_of (regular_price_of product) (Name ''value'') = JNum (Finite r)" "\<bar>r\<bar> < 10 ^ 21"
  shows "\<exists>name rest.
     createProductInfo env product labels (Element t c ats ks) =
       Inr (Element t c ats (ks @
         [Element ''div'' ''spotlight__info'' []
            (name
             # Element ''div'' ''spotlight__price-container'' []
                 ((if f < r
                   then [Element ''span'' ''spotlight__price-original'' []
                           [Text (to_string env (prop_of (final_price_of product) (Name ''currency''))
                              @ '' '' @ two_decimals r)]]
                   else [])
                  @ [Element ''span'' ''spotlight__price'' []
                       [Text (to_string env (prop_of (final_price_of product) (Name ''currency''))
                          @ '' '' @ two_decimals f)]])
             # rest)]))"
proof -
  have p: "\<not> nullish product" using assms(1) by (rule minimum_price_not_nullish)
  let ?name = "Element ''h2'' ''spotlight__name'' []
     (text_nodes (text_of env (prop_of product (Name ''name''))))"
  let ?price = "Element ''div'' ''spotlight__price-container'' []
                 ((if f < r
                   then [Element ''span'' ''spotlight__price-original'' []
                           [Text (to_string env (prop_of (final_price_of product) (Name ''currency''))
                              @ '' '' @ two_decimals r)]]
                   else [])
                  @ [Element ''span'' ''spotlight__price'' []
                       [Text (to_string env (prop_of (final_price_of product) (Name ''currency''))
                          @ '' '' @ two_decimals f)]])"
  have price: "add_price env product (Element ''div'' ''spotlight__info'' [] [?name]) =
      Inr (Element ''div'' ''spotlight__info'' [] [?name, ?price])"
    using add_price_typed [OF assms, of env "''div''" "''spotlight__info''" "[]" "[?name]"]
    by simp
  obtain ds where ds: "add_description env product
        (Element ''div'' ''spotlight__info'' [] [?name, ?price])
      = Inr (Element ''div'' ''spotlight__info'' [] ([?name, ?price] @ ds))"
    using add_description_ok [OF p] by blast
  obtain k where k: "add_actions env product labels
        (Element ''div'' ''spotlight__info'' [] ([?name, ?price] @ ds))
      = Inr (Element ''div'' ''spotlight__info'' [] (([?name, ?price] @ ds) @ [k]))"
    using add_actions_ok [OF p] by blast
  have "createProductInfo env product labels (Element t c ats ks) =
      Inr (Element t c ats (ks @
        [Element ''div'' ''spotlight__info'' [] (?name # ?price # (ds @ [k]))]))"
    using p price ds k
    by (simp add: createProductInfo_def Let_def get_prop_def createElement_def)
  then show ?thesis by blast
qed

theorem price_rendering_witness:
  "truthy (minimum_price_of sale_mug)
   \<and> (\<exists>name rest.
        createProductInfo offline_env sale_mug [] (Element ''div'' ''spotlight__content'' [] []) =
          Inr (Element ''div'' ''spotlight__content'' []
            [Element ''div'' ''spotlight__info'' []
               (name
                # Element ''div'' ''spotlight__price-container'' []
                    [Element ''span'' ''spotlight__price-original'' [] [Text ''USD 100.00''],
                     Element ''span'' ''spotlight__price'' [] [Text ''USD 80.00'']]
                # rest)]))
   \<and> truthy (minimum_price_of test_mug)
   \<and> (\<exists>name rest.
        createProductInfo offline_env test_mug [] (Element ''div'' ''spotlight__content'' [] []) =
          Inr (Element ''div'' ''spotlight__content'' []
            [Element ''div'' ''spotlight__info'' []
               (name
                # Element ''div'' ''spotlight__price-container'' []
                    [Element ''span'' ''spotlight__price'' [] [Text ''USD 15.00'']]
                # rest)]))"
proof -
  have sale: "truthy (minimum_price_of sale_mug)"
    "prop_of (final_price_of sale_mug) (Name ''value'') = JNum (Finite 80)"
    "prop_of (regular_price_of sale_mug) (Name ''value'') = JNum (Finite 100)"
    "prop_of (final_price_of sale_mug) (Name ''currency'') = JStr ''USD''"
    by (simp_all add: minimum_price_of_def final_price_of_def regular_price_of_def opt_prop_def
        sale_mug_def priced_mug_def)
  have mug: "truthy (minimum_price_of test_mug)"
    "prop_of (final_price_of test_mug) (Name ''value'') = JNum (Finite 15)"
    "prop_of (regular_price_of test_mug) (Name ''value'') = JNum (Finite 15)"
    "prop_of (final_price_of test_mug) (Name ''currency'') = JStr ''USD''"
    by (simp_all add: minimum_price_of_def final_price_of_def regular_price_of_def opt_prop_def
        test_mug_def priced_mug_def)
  from price_rendering [OF sale(1) sale(2) _ sale(3), of offline_env "[]"
      "''div''" "''spotlight__content''" "[]" "[]"]
    price_rendering [OF mug(1) mug(2) _ mug(3), of offline_env "[]"
      "''div''" "''spotlight__content''" "[]" "[]"]
    sale mug
  show ?thesis by (simp add: two_decimals_examples)
qed

text \<open>
  C5 as stated fails: with a minimum price that is present and a final price that is
  \<open>null\<close>, \<open>createProductInfo\<close> throws a \<open>TypeError\<close> and renders no price.
\<close>

theorem price_rendering_counterexample:
  "truthy (minimum_price_of unpriced_mug)
   \<and> createProductInfo offline_env unpriced_mug [] (Element ''div'' ''spotlight__content'' [] [])
       = Inl TypeError"
  by (simp add: createProductInfo_def add_price_def Let_def get_prop_def opt_prop_def
      minimum_price_of_def unpriced_mug_def priced_mug_def createElement_def)

text \<open>
  C6. A fulfilled decoration whose title is the default "Featured Product", defaulted
  or configured, leaves no title element in the block. A decoration that ends in the
  Rendered state leaves one container in the block: for a title that is neither the
  default nor empty its first child is the title element, an \<open>h2\<close> whose text is exactly
  the title; its only other child is the content wrapper, which holds no title element.
\<close>

theorem title_rendering:
  "(rejected (decorate env labels config block) = None
      \<and> title_of config = ''Featured Product'' \<longrightarrow>
      elements_by_class ''spotlight__title''
        (children (dom (decorate env labels config block))) = [])
   \<and> (state_of (decorate env labels config block) = Some Rendered \<longrightarrow>
        (\<exists>ks. children (dom (decorate env labels config block)) =
           [Element ''div'' ''spotlight__container'' []
             ((if title_of config = ''Featured Product'' \<or> title_of config = [] then []
               else [Element ''h2'' ''spotlight__title'' [] [Text (title_of config)]])
              @ [Element ''div'' ''spotlight__content'' [] ks])]
           \<and> elements_by_class ''spotlight__title'' ks = []))"
proof (cases rule: decorate_cases [of config env labels block])
  case config_error
  then show ?thesis by (simp add: state_of_def elements_by_class_def)
next
  case (rejected sku e)
  then show ?thesis by (simp add: state_of_def)
next
  case (fetch_threw sku cl e)
  then show ?thesis by (simp add: state_of_def elements_by_class_def)
next
  case (not_found sku cl tr)
  then show ?thesis by (simp add: state_of_def elements_by_class_def)
next
  case (failed sku cl tr product e)
  then show ?thesis by (simp add: state_of_def elements_by_class_def)
next
  case (rendered sku cl tr product container)
  from build_container_shape [OF rendered(8)] rendered(9) show ?thesis
    by (auto simp add: elements_by_class_def)
qed

theorem title_rendering_witness:
  "state_of (decorate (backend_env (reply_with [test_mug])) []
       [''sku'' \<mapsto> ''24-MB01'', ''title'' \<mapsto> ''Staff Pick of the Week''] plain_block)
     = Some Rendered
   \<and> (\<exists>ks. children (dom (decorate (backend_env (reply_with [test_mug])) []
         [''sku'' \<mapsto> ''24-MB01'', ''title'' \<mapsto> ''Staff Pick of the Week''] plain_block)) =
        [Element ''div'' ''spotlight__container'' []
          [Element ''h2'' ''spotlight__title'' [] [Text ''Staff Pick of the Week''],
           Element ''div'' ''spotlight__content'' [] ks]])
   \<and> rejected (decorate (backend_env (reply_with [test_mug])) []
       [''sku'' \<mapsto> ''24-MB01'', ''title'' \<mapsto> ''Featured Product''] plain_block) = None
   \<and> elements_by_class ''spotlight__title''
       (children (dom (decorate (backend_env (reply_with [test_mug])) []
         [''sku'' \<mapsto> ''24-MB01'', ''title'' \<mapsto> ''Featured Product''] plain_block))) = []"
proof -
  let ?env = "backend_env (reply_with [test_mug])"
  let ?custom = "[''sku'' \<mapsto> ''24-MB01'', ''title'' \<mapsto> ''Staff Pick of the Week'']"
  let ?default = "[''sku'' \<mapsto> ''24-MB01'', ''title'' \<mapsto> ''Featured Product'']"
  have cl: "classList_add (theme_class config) (classList plain_block)
      = Inr [''product-spotlight'', ''block'', ''spotlight--'' @ ''default'']"
    if "config ''theme'' = None" for config :: "string \<rightharpoonup> string"
    unfolding theme_class_def that option.case
    by (rule plain_block_classes) (rule no_whitespace_examples)
  have r1: "state_of (decorate ?env [] ?custom plain_block) = Some Rendered"
    using test_mug_decoration [of ?env _ _ "[]" ?custom plain_block _ "[]",
        OF backend_env_config _ _ cl]
    by (auto simp add: state_of_def title_of_def)
  have r2: "rejected (decorate ?env [] ?default plain_block) = None"
    using test_mug_decoration [of ?env _ _ "[]" ?default plain_block _ "[]",
        OF backend_env_config _ _ cl]
    by auto
  have t: "title_of ?custom = ''Staff Pick of the Week''" "title_of ?default = ''Featured Product''"
    by (simp_all add: title_of_def)
  from r1 r2 t title_rendering [of ?env "[]" ?custom plain_block]
    title_rendering [of ?env "[]" ?default plain_block]
  show ?thesis by auto
qed

text \<open>
  C7. The end-to-end example. With the configuration \<open>{sku: "24-MB01", theme: "dark"}\<close>
  and a backend whose response to the request has the test mug as its first product
  (the request is sent: \<open>getConfigValue\<close> has returned the endpoint and the headers),
  for every label object and every block the decoration ends in the Rendered state; the block has the
  class \<open>spotlight--dark\<close>; it holds the "No Image Available" placeholder and no \<open>img\<close>
  element; its price element reads "USD 15.00"; it holds no original-price element and
  no description element.
\<close>

theorem mug_example:
  assumes "getConfigValue env ''commerce-core-endpoint'' = Inr endpoint"
      and "getConfigValue env ''headers'' = Inr hs"
      and "fetch env (product_request endpoint hs ''24-MB01'') =
             Inr \<lparr>json = Inr (reply_with (test_mug # others))\<rparr>"
  shows "rejected (decorate env labels [''sku'' \<mapsto> ''24-MB01'', ''theme'' \<mapsto> ''dark''] block) = None
     \<and> state_of (decorate env labels [''sku'' \<mapsto> ''24-MB01'', ''theme'' \<mapsto> ''dark''] block)
         = Some Rendered
     \<and> ''spotlight--dark'' \<in> set (classList (dom
          (decorate env labels [''sku'' \<mapsto> ''24-MB01'', ''theme'' \<mapsto> ''dark''] block)))
     \<and> elements_by_class ''spotlight__image-placeholder'' (children (dom
          (decorate env labels [''sku'' \<mapsto> ''24-MB01'', ''theme'' \<mapsto> ''dark''] block)))
         = [Element ''div'' ''spotlight__image-placeholder'' [] [Text ''No Image Available'']]
     \<and> elements_by_tag ''img'' (children (dom
          (decorate env labels [''sku'' \<mapsto> ''24-MB01'', ''theme'' \<mapsto> ''dark''] block))) = []
     \<and> elements_by_class ''spotlight__price'' (children (dom
          (decorate env labels [''sku'' \<mapsto> ''24-MB01'', ''theme'' \<mapsto> ''dark''] block)))
         = [Element ''span'' ''spotlight__price'' [] [Text ''USD 15.00'']]
     \<and> elements_by_class ''spotlight__price-original'' (children (dom
          (decorate env labels [''sku'' \<mapsto> ''24-MB01'', ''theme'' \<mapsto> ''dark''] block))) = []
     \<and> elements_by_class ''spotlight__description'' (children (dom
          (decorate env labels [''sku'' \<mapsto> ''24-MB01'', ''theme'' \<mapsto> ''dark''] block))) = []"
proof -
  let ?config = "[''sku'' \<mapsto> ''24-MB01'', ''theme'' \<mapsto> ''dark'']"
  let ?cl = "if ''spotlight--'' @ ''dark'' \<in> set (classList block) then classList block
             else classList block @ [''spotlight--'' @ ''dark'']"
  have tc: "theme_class ?config = ''spotlight--'' @ ''dark''" by (simp add: theme_class_def)
  have cl: "classList_add (theme_class ?config) (classList block) = Inr ?cl"
    unfolding tc by (rule theme_token_accepted) (rule no_whitespace_examples)
  have title: "title_of ?config = ''Featured Product''" by (simp add: title_of_def)
  from test_mug_decoration [OF assms _ cl, of labels]
  obtain p1 p2 p3 where d: "decorate env labels ?config block =
      \<lparr>rejected = None,
       dom = block\<lparr>classList := ?cl,
         children := [Element ''div'' ''spotlight__container'' [] [test_mug_content p1 p2 p3]]\<rparr>,
       trace = [Fetch (product_request endpoint hs ''24-MB01''),
                Emit ''product-spotlight/loaded''
                  (JObj [(''sku'', JStr ''24-MB01''), (''name'', JStr ''Test Mug''),
                         (''price'', JNum (Finite 15))])]\<rparr>"
    by (auto simp add: title)
  show ?thesis
    unfolding d
    by (simp add: state_of_def elements_by_class_def elements_by_tag_def test_mug_content_def)
qed

theorem mug_example_witness:
  "getConfigValue (backend_env (reply_with [test_mug])) ''commerce-core-endpoint''
     = Inr (JStr ''/graphql'')
   \<and> getConfigValue (backend_env (reply_with [test_mug])) ''headers'' = Inr JUndefined
   \<and> fetch (backend_env (reply_with [test_mug]))
        (product_request (JStr ''/graphql'') JUndefined ''24-MB01'')
       = Inr \<lparr>json = Inr (reply_with [test_mug])\<rparr>
   \<and> state_of (decorate (backend_env (reply_with [test_mug])) []
        [''sku'' \<mapsto> ''24-MB01'', ''theme'' \<mapsto> ''dark''] plain_block) = Some Rendered
   \<and> ''spotlight--dark'' \<in> set (classList (dom (decorate (backend_env (reply_with [test_mug])) []
        [''sku'' \<mapsto> ''24-MB01'', ''theme'' \<mapsto> ''dark''] plain_block)))
   \<and> elements_by_class ''spotlight__price'' (children (dom
        (decorate (backend_env (reply_with [test_mug])) []
          [''sku'' \<mapsto> ''24-MB01'', ''theme'' \<mapsto> ''dark''] plain_block)))
       = [Element ''span'' ''spotlight__price'' [] [Text ''USD 15.00'']]"
  using mug_example [of "backend_env (reply_with [test_mug])" "JStr ''/graphql''" JUndefined
      "[]" "[]" plain_block]
  by simp

text \<open>
  C8. Decoration is idempotent on a block that holds the same configuration again.
  Let a block be decorated, and let a second block keep the class list that the first
  decoration has left and hold content from which the reader takes the same
  configuration. With the same runtime and labels, the second decoration completes as
  the first did and leaves the same class list; when the first was fulfilled it leaves
  the same block, class list and content; when the first was rejected it leaves the
  second block as it is.
\<close>

theorem decorate_idempotent:
  assumes "readBlockConfig block2 = readBlockConfig block"
      and "classList block2 = classList (dom (decorate_block readBlockConfig env labels block))"
  shows "rejected (decorate_block readBlockConfig env labels block2)
           = rejected (decorate_block readBlockConfig env labels block)
       \<and> classList (dom (decorate_block readBlockConfig env labels block2))
           = classList (dom (decorate_block readBlockConfig env labels block))
       \<and> (rejected (decorate_block readBlockConfig env labels block) = None \<longrightarrow>
            dom (decorate_block readBlockConfig env labels block2)
              = dom (decorate_block readBlockConfig env labels block))
       \<and> (rejected (decorate_block readBlockConfig env labels block) \<noteq> None \<longrightarrow>
            dom (decorate_block readBlockConfig env labels block2) = block2)"
proof -
  let ?config = "readBlockConfig block"
  let ?first = "decorate env labels ?config block"
  let ?again = "decorate env labels ?config (dom ?first)"
  let ?second = "decorate env labels ?config block2"
  have cl: "classList block2 = classList (dom ?first)"
    using assms(2) by (simp add: decorate_block_def)
  note twice = decorate_body_twice [of env labels ?config block]
  note same = decorate_reads_class_list [OF cl, of env labels ?config]
  have r: "rejected ?second = rejected ?first" using same(1) twice(2) by simp
  have fulfilled: "dom ?second = dom ?first" if "rejected ?first = None"
    using that same(3) twice by simp
  have kept: "dom ?second = block2" if "rejected ?first \<noteq> None"
    using that same(4) twice(2) by simp
  have "classList (dom ?second) = classList (dom ?first)"
    using fulfilled kept cl by (cases "rejected ?first") auto
  with r fulfilled kept show ?thesis
    by (simp add: decorate_block_def assms(1))
qed

theorem decorate_idempotent_witness:
  "table_reader
       ((dom (decorate_block table_reader (backend_env (reply_with [test_mug])) [] authored_block))
          \<lparr>children := mug_table\<rparr>)
     = table_reader authored_block
   \<and> rejected (decorate_block table_reader (backend_env (reply_with [test_mug])) [] authored_block)
       = None
   \<and> dom (decorate_block table_reader (backend_env (reply_with [test_mug])) []
        ((dom (decorate_block table_reader (backend_env (reply_with [test_mug])) []
            authored_block))\<lparr>children := mug_table\<rparr>))
       = dom (decorate_block table_reader (backend_env (reply_with [test_mug])) [] authored_block)"
proof -
  let ?env = "backend_env (reply_with [test_mug])"
  let ?first = "decorate_block table_reader ?env [] authored_block"
  let ?restored = "(dom ?first)\<lparr>children := mug_table\<rparr>"
  have c: "table_reader ?restored = table_reader authored_block"
    by (simp add: table_reader_mug_table authored_block_def)
  have f: "rejected ?first = None"
    using authored_block_decoration by auto
  have "classList ?restored = classList (dom ?first)" by simp
  from decorate_idempotent [of table_reader ?restored authored_block ?env "[]", OF c this] c f
  show ?thesis by simp
qed

text \<open>
  C9. In a decoration that reaches the fetch and receives a product whose minimum
  price is present, while its final price is absent or has no numeric value, building
  the view throws a \<open>TypeError\<close> inside the \<open>try\<close> block. The decoration is fulfilled
  in the FetchError state: the error is logged, the content of the block is the fixed
  message "Error loading product", and no event is emitted.
\<close>

theorem malformed_price_fetch_error:
  assumes "config ''sku'' = Some sku" "sku \<noteq> []"
      and "fetches (trace (decorate env labels config block)) \<noteq> []"
      and "snd (fetchProductData env sku) = Inr product"
      and "truthy (minimum_price_of product)"
      and "nullish (final_price_of product)
         \<or> (\<forall>n. prop_of (final_price_of product) (Name ''value'') \<noteq> JNum n)"
  shows "build_container env labels (title_of config) product = Inl TypeError
       \<and> rejected (decorate env labels config block) = None
       \<and> state_of (decorate env labels config block) = Some FetchError
       \<and> children (dom (decorate env labels config block)) = [Html error_loading_html]
       \<and> emitted (trace (decorate env labels config block)) = []
       \<and> trace (decorate env labels config block) =
           fst (fetchProductData env sku)
           @ [ConsoleError ''Error in product spotlight block:'' TypeError]"
proof -
  have b: "build_container env labels (title_of config) product = Inl TypeError"
    using assms(5,6) by (rule build_container_throws)
  have nn: "product \<noteq> JNull"
    using assms(5) by (auto simp add: minimum_price_of_def opt_prop_def)
  show ?thesis
  proof (cases rule: decorate_cases [of config env labels block])
    case config_error
    with assms show ?thesis by auto
  next
    case (rejected sku e)
    with assms show ?thesis by simp
  next
    case (fetch_threw sku' cl e)
    with assms show ?thesis by simp
  next
    case (not_found sku' cl tr)
    with assms nn show ?thesis by simp
  next
    case (failed sku' cl tr product' e)
    with assms b show ?thesis by (simp add: state_of_def)
  next
    case (rendered sku' cl tr product' container)
    with assms b show ?thesis by simp
  qed
qed

theorem malformed_price_fetch_error_witness:
  "snd (fetchProductData (backend_env (reply_with [unpriced_mug])) ''24-MB01'') = Inr unpriced_mug
   \<and> truthy (minimum_price_of unpriced_mug)
   \<and> nullish (final_price_of unpriced_mug)
   \<and> state_of (decorate (backend_env (reply_with [unpriced_mug])) []
        [''sku'' \<mapsto> ''24-MB01''] plain_block) = Some FetchError
   \<and> children (dom (decorate (backend_env (reply_with [unpriced_mug])) []
        [''sku'' \<mapsto> ''24-MB01''] plain_block)) = [Html error_loading_html]
   \<and> emitted (trace (decorate (backend_env (reply_with [unpriced_mug])) []
        [''sku'' \<mapsto> ''24-MB01''] plain_block)) = []"
proof -
  let ?config = "[''sku'' \<mapsto> ''24-MB01'']"
  let ?env = "backend_env (reply_with [unpriced_mug])"
  have tc: "theme_class ?config = ''spotlight--'' @ ''default''" by (simp add: theme_class_def)
  have cl: "classList_add (theme_class ?config) (classList plain_block)
      = Inr [''product-spotlight'', ''block'', ''spotlight--'' @ ''default'']"
    unfolding tc by (rule plain_block_classes) (rule no_whitespace_examples)
  have reach: "fetches (trace (decorate ?env [] ?config plain_block)) \<noteq> []"
    by (rule decorate_reaches_fetch [where sku = "''24-MB01''", OF _ _ cl backend_env_config])
      simp_all
  have f: "snd (fetchProductData ?env ''24-MB01'') = Inr unpriced_mug"
    by (simp add: fetchProductData_def Let_def get_prop_def opt_prop_def js_or_def reply_with_def
        unpriced_mug_def priced_mug_def)
  have m: "truthy (minimum_price_of unpriced_mug)" "nullish (final_price_of unpriced_mug)"
    by (simp_all add: minimum_price_of_def final_price_of_def opt_prop_def unpriced_mug_def
        priced_mug_def)
  have bad: "nullish (final_price_of unpriced_mug)
      \<or> (\<forall>n. prop_of (final_price_of unpriced_mug) (Name ''value'') \<noteq> JNum n)"
    using m(2) by simp
  have sku: "?config ''sku'' = Some ''24-MB01''" "''24-MB01'' \<noteq> []" by simp_all
  from malformed_price_fetch_error [OF sku reach f m(1) bad] f m
  show ?thesis by blast
qed

text \<open>
  C10, as amended. In a decoration with a non-empty \<open>sku\<close>, a theme that is present and
  holds no ASCII whitespace, the empty string included, is not replaced by the default:
  the class list of the block becomes the old one with exactly the class
  \<open>spotlight--\<close> followed by the theme added (once), so an empty theme gives the class
  \<open>spotlight--\<close> and not \<open>spotlight--default\<close>.
\<close>

theorem theme_class_added:
  assumes "config ''sku'' = Some sku" "sku \<noteq> []"
      and "config ''theme'' = Some t" "\<not> list_ex ascii_whitespace t"
  shows "rejected (decorate env labels config block) = None
       \<and> classList (dom (decorate env labels config block)) =
           (if ''spotlight--'' @ t \<in> set (classList block) then classList block
            else classList block @ [''spotlight--'' @ t])"
proof -
  have tc: "theme_class config = ''spotlight--'' @ t"
    using assms(3) by (simp add: theme_class_def)
  have ok: "classList_add (theme_class config) (classList block) =
      Inr (if ''spotlight--'' @ t \<in> set (classList block) then classList block
            else classList block @ [''spotlight--'' @ t])"
    unfolding tc using assms(4) by (rule theme_token_accepted)
  show ?thesis
  proof (cases rule: decorate_cases [of config env labels block])
    case config_error
    with assms show ?thesis by auto
  next
    case (rejected sku e)
    with ok show ?thesis by simp
  next
    case (fetch_threw sku cl e)
    with ok show ?thesis by auto
  next
    case (not_found sku cl tr)
    with ok show ?thesis by auto
  next
    case (failed sku cl tr product e)
    with ok show ?thesis by auto
  next
    case (rendered sku cl tr product container)
    with ok show ?thesis by auto
  qed
qed

theorem theme_class_added_witness:
  "classList (dom (decorate offline_env [] [''sku'' \<mapsto> ''24-MB01'', ''theme'' \<mapsto> []] plain_block))
     = [''product-spotlight'', ''block'', ''spotlight--'']
   \<and> classList (dom (decorate offline_env [] [''sku'' \<mapsto> ''24-MB01'', ''theme'' \<mapsto> ''ocean'']
        plain_block))
     = [''product-spotlight'', ''block'', ''spotlight--ocean'']"
  using
    theme_class_added [of "[''sku'' \<mapsto> ''24-MB01'', ''theme'' \<mapsto> []]" "''24-MB01''" "[]"
      offline_env "[]" plain_block]
    theme_class_added [of "[''sku'' \<mapsto> ''24-MB01'', ''theme'' \<mapsto> ''ocean'']" "''24-MB01''"
      "''ocean''" offline_env "[]" plain_block]
  by (simp add: ascii_whitespace_def plain_block_def)

text \<open>
  C10 as stated fails: for the theme "dark blue", \<open>classList.add\<close> throws an
  \<open>InvalidCharacterError\<close> outside the \<open>try\<close> block; the promise of \<open>decorate\<close> is rejected,
  and the block keeps its class list and its content.
\<close>

theorem theme_class_added_counterexample:
  "rejected (decorate offline_env [] [''sku'' \<mapsto> ''24-MB01'', ''theme'' \<mapsto> ''dark blue''] plain_block)
     = Some InvalidCharacterError
   \<and> dom (decorate offline_env [] [''sku'' \<mapsto> ''24-MB01'', ''theme'' \<mapsto> ''dark blue''] plain_block)
     = plain_block
   \<and> ''spotlight--dark blue'' \<notin> set (classList plain_block)"
  by (simp add: decorate_def classList_add_def ascii_whitespace_def plain_block_def)

end
